theory Spec2Isabelle
  imports Complex_Main "HOL-Library.List_Lexorder" "HOL-Library.Char_ord"
begin

section \<open>Profile API with cat facts: a shallow embedding\<close>

text \<open>
  The service has three modules: \<^verbatim>\<open>config.py\<close> (the settings object built when the
  module is imported), \<^verbatim>\<open>services.py\<close> (the upstream fact client, the timestamp and user
  providers and the response assembler) and \<^verbatim>\<open>main.py\<close> (the routes). Everything the
  Python code reads from outside is an argument of the model: the process environment
  (\<^verbatim>\<open>os.environ\<close>), the reading of the clock, and what the one outbound HTTP call does.
  Exceptions are values: a function that can raise returns \<open>exc + 'a\<close>, with \<open>Inl\<close> the
  exception.
\<close>

subsection \<open>Python strings and JSON values\<close>

text \<open>
  A Python \<^verbatim>\<open>str\<close> is a sequence of code points, and Python orders strings by them. A
  code point in the range U+D800 to U+DFFF is a lone surrogate: the decoder of JSON
  produces one from an unpaired escape (\<^verbatim>\<open>uD800\<close> after a backslash), and
  \<^verbatim>\<open>os.environ\<close> holds one for every byte of a variable that is not UTF-8. Such a
  string cannot be encoded as UTF-8. A HOL string stands for the \<^verbatim>\<open>str\<close> of its characters (code points below 256):
  the literals of the source, the texts of messages and the timestamp are written so.
\<close>

type_synonym pystr = "nat list"

definition str_of :: "string \<Rightarrow> pystr" where
  "str_of s = map of_char s"

definition utf8_encodable :: "pystr \<Rightarrow> bool" where
  "utf8_encodable s = list_all (\<lambda>c. c < 0xD800 \<or> 0xDFFF < c) s"

text \<open>
  A Python \<^verbatim>\<open>float\<close>: a finite number, or one of the three values that are not. The
  decoder of JSON returns \<^verbatim>\<open>inf\<close> for a number too large, such as \<^verbatim>\<open>1e400\<close>, and accepts
  \<^verbatim>\<open>NaN\<close> and \<^verbatim>\<open>Infinity\<close>.
\<close>

datatype pyfloat = FloatVal rat | FloatInf | FloatNegInf | FloatNaN

fun is_finite :: "pyfloat \<Rightarrow> bool" where
  "is_finite (FloatVal _) = True"
| "is_finite _ = False"

text \<open>
  What \<^verbatim>\<open>response.json()\<close> returns and what \<^verbatim>\<open>JSONResponse\<close> serialises. A Python
  \<^verbatim>\<open>dict\<close> is an association list in insertion order, read with \<open>map_of\<close>.
\<close>

datatype json =
    JNull
  | JBool bool
  | JInt int
  | JFloat pyfloat
  | JString pystr
  | JArr "json list"
  | JObject "(pystr \<times> json) list"

text \<open>
  A string and a dict as the source writes them: a text of the source, and a dict display
  with such texts as keys.
\<close>

definition JStr :: "string \<Rightarrow> json" where
  "JStr s = JString (str_of s)"

definition JObj :: "(string \<times> json) list \<Rightarrow> json" where
  "JObj kvs = JObject (map (\<lambda>kv. (str_of (fst kv), snd kv)) kvs)"

text \<open>\<^verbatim>\<open>d.get(key, default)\<close> on a dict.\<close>

definition dict_get :: "(pystr \<times> json) list \<Rightarrow> pystr \<Rightarrow> json \<Rightarrow> json" where
  "dict_get d k dflt = (case map_of d k of None \<Rightarrow> dflt | Some v \<Rightarrow> v)"

text \<open>\<^verbatim>\<open>type(v).__name__\<close>, as it appears in the message of an AttributeError.\<close>

fun type_name :: "json \<Rightarrow> string" where
  "type_name JNull = ''NoneType''"
| "type_name (JBool _) = ''bool''"
| "type_name (JInt _) = ''int''"
| "type_name (JFloat _) = ''float''"
| "type_name (JString _) = ''str''"
| "type_name (JArr _) = ''list''"
| "type_name (JObject _) = ''dict''"

text \<open>Reading a field of a JSON object (of a response body); \<open>None\<close> when there is none.\<close>

fun json_field :: "json \<Rightarrow> string \<Rightarrow> json option" where
  "json_field (JObject d) k = map_of d (str_of k)"
| "json_field _ k = None"

fun is_JString :: "json \<Rightarrow> bool" where
  "is_JString (JString _) = True"
| "is_JString _ = False"

fun is_JObject :: "json \<Rightarrow> bool" where
  "is_JObject (JObject _) = True"
| "is_JObject _ = False"

text \<open>
  What \<^verbatim>\<open>JSONResponse\<close> does with its content when it is constructed:
  \<^verbatim>\<open>json.dumps(content, allow_nan=False, ensure_ascii=False)\<close> raises ValueError when a float
  anywhere in the content is not finite, and the encoding of its result as UTF-8 raises
  UnicodeEncodeError when a string or a key anywhere in the content has a lone surrogate.
\<close>

fun has_nonfinite :: "json \<Rightarrow> bool" where
  "has_nonfinite (JFloat f) = (if is_finite f then False else True)"
| "has_nonfinite (JArr xs) = list_ex has_nonfinite xs"
| "has_nonfinite (JObject kvs) = list_ex (\<lambda>kv. has_nonfinite (snd kv)) kvs"
| "has_nonfinite _ = False"

fun json_encodable :: "json \<Rightarrow> bool" where
  "json_encodable (JString s) = utf8_encodable s"
| "json_encodable (JArr xs) = list_all json_encodable xs"
| "json_encodable (JObject kvs) =
     list_all (\<lambda>kv. utf8_encodable (fst kv) \<and> json_encodable (snd kv)) kvs"
| "json_encodable _ = True"

subsection \<open>Decimal text of a number\<close>

definition digit_char :: "nat \<Rightarrow> char" where
  "digit_char d = char_of (48 + d)"

text \<open>\<^verbatim>\<open>str(n)\<close> for a non-negative integer.\<close>

fun str_nat :: "nat \<Rightarrow> string" where
  "str_nat n = (if n < 10 then [digit_char n] else str_nat (n div 10) @ [digit_char (n mod 10)])"

declare str_nat.simps [simp del]

text \<open>The formats \<^verbatim>\<open>%02d\<close>, \<^verbatim>\<open>%04d\<close> and \<^verbatim>\<open>%06d\<close>: zeros on the left up to the width.\<close>

definition zpad :: "nat \<Rightarrow> nat \<Rightarrow> string" where
  "zpad w n = replicate (w - length (str_nat n)) (CHR ''0'') @ str_nat n"

text \<open>The last \<open>w\<close> decimal digits of a number, a text of width \<open>w\<close>.\<close>

fun digits :: "nat \<Rightarrow> nat \<Rightarrow> string" where
  "digits 0 n = []"
| "digits (Suc w) n = digits w (n div 10) @ [digit_char (n mod 10)]"

subsection \<open>Exceptions\<close>

text \<open>
  The exception classes the handlers tell apart. \<open>TimeoutException\<close> is a subclass of
  \<open>RequestError\<close> in httpx; the constructor \<open>RequestError\<close> stands for every other
  request error (connection refused, DNS, reset). \<open>HTTPStatusError\<close> carries
  \<^verbatim>\<open>e.response.status_code\<close>, \<open>HTTPException\<close> its status code and detail; the string of
  each constructor is the exception's message.
\<close>

datatype exc =
    TimeoutException string
  | RequestError string
  | HTTPStatusError nat string
  | HTTPException nat string
  | JSONDecodeError string
  | UnicodeDecodeError string
  | UnicodeEncodeError string
  | ValueError string
  | AttributeError string
  | OtherException string

fun is_TimeoutException :: "exc \<Rightarrow> bool" where
  "is_TimeoutException (TimeoutException _) = True"
| "is_TimeoutException _ = False"

fun is_HTTPStatusError :: "exc \<Rightarrow> bool" where
  "is_HTTPStatusError (HTTPStatusError _ _) = True"
| "is_HTTPStatusError _ = False"

text \<open>\<^verbatim>\<open>isinstance(e, httpx.RequestError)\<close>: true of a timeout as well.\<close>

fun is_RequestError :: "exc \<Rightarrow> bool" where
  "is_RequestError (TimeoutException _) = True"
| "is_RequestError (RequestError _) = True"
| "is_RequestError _ = False"

fun is_HTTPException :: "exc \<Rightarrow> bool" where
  "is_HTTPException (HTTPException _ _) = True"
| "is_HTTPException _ = False"

text \<open>\<^verbatim>\<open>str(e)\<close>; an HTTPException prints as its status code, a colon and its detail.\<close>

fun str_exc :: "exc \<Rightarrow> string" where
  "str_exc (TimeoutException m) = m"
| "str_exc (RequestError m) = m"
| "str_exc (HTTPStatusError c m) = m"
| "str_exc (HTTPException c d) = str_nat c @ '': '' @ d"
| "str_exc (JSONDecodeError m) = m"
| "str_exc (UnicodeDecodeError m) = m"
| "str_exc (UnicodeEncodeError m) = m"
| "str_exc (ValueError m) = m"
| "str_exc (AttributeError m) = m"
| "str_exc (OtherException m) = m"

text \<open>\<^verbatim>\<open>e.response.status_code\<close> of an HTTPStatusError.\<close>

fun response_status_code :: "exc \<Rightarrow> nat" where
  "response_status_code (HTTPStatusError c _) = c"
| "response_status_code _ = 0"

subsection \<open>The outbound call\<close>

text \<open>
  An httpx response, as far as the client looks at it: the status code, the message
  \<^verbatim>\<open>raise_for_status\<close> gives its exception, and what \<^verbatim>\<open>response.json()\<close> does (it raises
  on a body that does not decode and returns the decoded value otherwise).
\<close>

record response =
  status_code :: nat
  status_message :: string
  json_of :: "exc + json"

text \<open>
  What \<^verbatim>\<open>client.get(CAT_FACT_API)\<close> within the configured timeout does: it raises, or it
  returns a response.
\<close>

datatype upstream = Raises exc | Responds response

definition is_success :: "nat \<Rightarrow> bool" where
  "is_success c = (200 \<le> c \<and> c \<le> 299)"

text \<open>
  \<^verbatim>\<open>response.raise_for_status()\<close> of httpx: an HTTPStatusError unless the status code is
  2xx; in particular for every 4xx and 5xx, the codes the source's comment names.
\<close>

definition raise_for_status :: "response \<Rightarrow> exc + unit" where
  "raise_for_status r =
     (if is_success (status_code r) then Inr ()
      else Inl (HTTPStatusError (status_code r) (status_message r)))"

subsection \<open>services.py\<close>

definition fallback_fact :: string where
  "fallback_fact = ''Cats are amazing creatures!''"

text \<open>
  \<^verbatim>\<open>data.get\<close> exists on a dict only: on any other decoded value the attribute lookup
  raises AttributeError.
\<close>

definition no_attribute_get :: "json \<Rightarrow> exc" where
  "no_attribute_get v =
     AttributeError ([CHR 0x27] @ type_name v @ [CHR 0x27] @ '' object has no attribute ''
                     @ [CHR 0x27] @ ''get'' @ [CHR 0x27])"

text \<open>The body of the \<^verbatim>\<open>try\<close> block of \<^verbatim>\<open>fetch_cat_fact\<close>.\<close>

definition fetch_cat_fact_try :: "upstream \<Rightarrow> exc + json" where
  "fetch_cat_fact_try up =
     (case up of
        Raises e \<Rightarrow> Inl e
      | Responds r \<Rightarrow>
          (case raise_for_status r of
             Inl e \<Rightarrow> Inl e
           | Inr _ \<Rightarrow>
               (case json_of r of
                  Inl e \<Rightarrow> Inl e
                | Inr data \<Rightarrow>
                    (case data of
                       JObject d \<Rightarrow> Inr (dict_get d (str_of ''fact'') (JStr fallback_fact))
                     | _ \<Rightarrow> Inl (no_attribute_get data)))))"

text \<open>The \<^verbatim>\<open>except\<close> clauses of \<^verbatim>\<open>fetch_cat_fact\<close>, in the order of the source.\<close>

definition fetch_cat_fact_except :: "exc \<Rightarrow> exc" where
  "fetch_cat_fact_except e =
     (if is_TimeoutException e then
        HTTPException 503 ''Cat Facts API is taking too long to respond. Please try again.''
      else if is_HTTPStatusError e then
        HTTPException 503 (''Cat Facts API returned an error: '' @ str_nat (response_status_code e))
      else if is_RequestError e then
        HTTPException 503 (''Failed to connect to Cat Facts API: '' @ str_exc e)
      else
        HTTPException 500 (''Unexpected error while fetching cat fact: '' @ str_exc e))"

definition fetch_cat_fact :: "upstream \<Rightarrow> exc + json" where
  "fetch_cat_fact up =
     (case fetch_cat_fact_try up of
        Inr cat_fact \<Rightarrow> Inr cat_fact
      | Inl e \<Rightarrow> Inl (fetch_cat_fact_except e))"

text \<open>
  A reading of the clock, \<^verbatim>\<open>datetime.now(timezone.utc)\<close>: the fields of an aware datetime
  in UTC.
\<close>

record datetime =
  year :: nat
  month :: nat
  day :: nat
  hour :: nat
  minute :: nat
  second :: nat
  microsecond :: nat

text \<open>
  \<^verbatim>\<open>datetime.isoformat()\<close> of such a value: the fraction is left out when the microsecond
  is zero, and the offset of UTC is \<^verbatim>\<open>+00:00\<close>.
\<close>

definition isoformat :: "datetime \<Rightarrow> string" where
  "isoformat dt =
     zpad 4 (year dt) @ ''-'' @ zpad 2 (month dt) @ ''-'' @ zpad 2 (day dt) @ ''T''
     @ zpad 2 (hour dt) @ '':'' @ zpad 2 (minute dt) @ '':'' @ zpad 2 (second dt)
     @ (if microsecond dt \<noteq> 0 then ''.'' @ zpad 6 (microsecond dt) else [])
     @ ''+00:00''"

definition get_current_timestamp :: "datetime \<Rightarrow> string" where
  "get_current_timestamp now = isoformat now"

text \<open>
  The process environment and \<^verbatim>\<open>os.getenv(key, default)\<close>: the names of the variables
  and the defaults are texts of the source, the values are any \<^verbatim>\<open>str\<close>.
\<close>

type_synonym environ = "string \<rightharpoonup> pystr"

definition getenv :: "environ \<Rightarrow> string \<Rightarrow> string \<Rightarrow> pystr" where
  "getenv env k dflt = (case env k of None \<Rightarrow> str_of dflt | Some v \<Rightarrow> v)"

definition get_user_info :: "environ \<Rightarrow> json" where
  "get_user_info env =
     JObj [(''email'', JString (getenv env ''USER_EMAIL'' ''your.email@example.com'')),
           (''name'', JString (getenv env ''USER_NAME'' ''Your Full Name'')),
           (''stack'', JString (getenv env ''USER_STACK'' ''Python/FastAPI''))]"

text \<open>
  The assembler: the fact first (its exception leaves the function as it is), then the
  timestamp and the user information.
\<close>

definition build_profile_response :: "environ \<Rightarrow> datetime \<Rightarrow> upstream \<Rightarrow> exc + json" where
  "build_profile_response env now up =
     (case fetch_cat_fact up of
        Inl e \<Rightarrow> Inl e
      | Inr cat_fact \<Rightarrow>
          Inr (JObj [(''status'', JStr ''success''),
                     (''user'', get_user_info env),
                     (''timestamp'', JStr (get_current_timestamp now)),
                     (''fact'', cat_fact)]))"

subsection \<open>config.py\<close>

text \<open>
  The string settings of the class \<^verbatim>\<open>Settings\<close>. Its attributes are evaluated once, when
  the module is imported, from the environment of that moment (after \<^verbatim>\<open>load_dotenv\<close>). The
  port, the debug flag, the upstream URL and timeout and the CORS lists are not read by
  the routes modelled here.
\<close>

record Settings =
  APP_NAME :: pystr
  APP_VERSION :: pystr
  HOST :: pystr
  USER_EMAIL :: pystr
  USER_NAME :: pystr
  USER_STACK :: pystr
  LOG_LEVEL :: pystr

definition settings :: "environ \<Rightarrow> Settings" where
  "settings env0 =
     \<lparr> APP_NAME = str_of ''PROFILE API WITH CAT FACTS'',
       APP_VERSION = str_of ''1.0.0'',
       HOST = getenv env0 ''HOST'' ''0.0.0.0'',
       USER_EMAIL = getenv env0 ''USER_EMAIL'' ''your.email@example.com'',
       USER_NAME = getenv env0 ''USER_NAME'' ''Your Full Name'',
       USER_STACK = getenv env0 ''USER_STACK'' ''JavaScript/Nodejs'',
       LOG_LEVEL = getenv env0 ''LOG_LEVEL'' ''INFO'' \<rparr>"

text \<open>The user information the configuration holds, as a user object.\<close>

definition configured_user :: "Settings \<Rightarrow> json" where
  "configured_user s =
     JObj [(''email'', JString (USER_EMAIL s)),
           (''name'', JString (USER_NAME s)),
           (''stack'', JString (USER_STACK s))]"

subsection \<open>main.py\<close>

text \<open>
  An HTTP reply: a JSONResponse with its content, status code and the headers set by the
  handler, or the plain text reply of the server for an exception nobody handled.
\<close>

datatype reply =
    JSONResponse json nat "(string \<times> string) list"
  | PlainTextResponse string nat

fun reply_status :: "reply \<Rightarrow> nat" where
  "reply_status (JSONResponse c s h) = s"
| "reply_status (PlainTextResponse t s) = s"

text \<open>The content the reply was built from.\<close>

fun reply_content :: "reply \<Rightarrow> json" where
  "reply_content (JSONResponse c s h) = c"
| "reply_content (PlainTextResponse t s) = JStr t"

text \<open>
  The construction of a JSONResponse renders the content at once, so it raises where the
  rendering does. The texts of the two exceptions are those of Python 3.11, without the
  character and the position that the message of a UnicodeEncodeError names in between.
\<close>

definition render :: "json \<Rightarrow> exc + unit" where
  "render content =
     (if has_nonfinite content then
        Inl (ValueError ''Out of range float values are not JSON compliant'')
      else if json_encodable content then Inr ()
      else
        Inl (UnicodeEncodeError ([CHR 0x27] @ ''utf-8'' @ [CHR 0x27] @ '' codec can''
               @ [CHR 0x27] @ ''t encode character: surrogates not allowed'')))"

definition json_response :: "json \<Rightarrow> nat \<Rightarrow> (string \<times> string) list \<Rightarrow> exc + reply" where
  "json_response content status headers =
     (case render content of
        Inl e \<Rightarrow> Inl e
      | Inr _ \<Rightarrow> Inr (JSONResponse content status headers))"

text \<open>The body of the \<^verbatim>\<open>try\<close> block of \<^verbatim>\<open>get_profile\<close>.\<close>

definition get_profile_try :: "environ \<Rightarrow> datetime \<Rightarrow> upstream \<Rightarrow> exc + reply" where
  "get_profile_try env now up =
     (case build_profile_response env now up of
        Inl e \<Rightarrow> Inl e
      | Inr response_data \<Rightarrow>
          json_response response_data 200 [(''Content-Type'', ''application/json'')])"

text \<open>
  \<^verbatim>\<open>get_profile\<close>: the payload goes into a JSONResponse with status 200; an HTTPException
  is raised again as it is, any other exception of the \<^verbatim>\<open>try\<close> block, that of the
  JSONResponse included, becomes an HTTPException with status 500.
\<close>

definition get_profile :: "environ \<Rightarrow> datetime \<Rightarrow> upstream \<Rightarrow> exc + reply" where
  "get_profile env now up =
     (case get_profile_try env now up of
        Inr r \<Rightarrow> Inr r
      | Inl e \<Rightarrow>
          (if is_HTTPException e then Inl e
           else Inl (HTTPException 500 (''Internal server error: '' @ str_exc e))))"

definition health_check :: "datetime \<Rightarrow> json" where
  "health_check now =
     JObj [(''status'', JStr ''healthy''),
           (''timestamp'', JStr (get_current_timestamp now))]"

text \<open>
  What the framework sends for a route. An HTTPException raised by the handler becomes a
  reply with its status code and the body \<^verbatim>\<open>{"detail": detail}\<close>; any other exception is
  the server's plain 500. A Response object returned by the handler is sent as it is (the
  response model is not applied to it); a dict returned by the handler is checked against
  the response model, here \<^verbatim>\<open>HealthResponse\<close> (the literal status and a string
  timestamp), and sent with status 200. The detail of an HTTPException and the timestamp
  are texts that always encode.
\<close>

fun http_exception_handler :: "exc \<Rightarrow> reply" where
  "http_exception_handler (HTTPException c d) = JSONResponse (JObj [(''detail'', JStr d)]) c []"
| "http_exception_handler _ = PlainTextResponse ''Internal Server Error'' 500"

definition route_me :: "environ \<Rightarrow> datetime \<Rightarrow> upstream \<Rightarrow> reply" where
  "route_me env now up =
     (case get_profile env now up of
        Inr r \<Rightarrow> r
      | Inl e \<Rightarrow> http_exception_handler e)"

definition HealthResponse :: "json \<Rightarrow> json option" where
  "HealthResponse v =
     (case (json_field v ''status'', json_field v ''timestamp'') of
        (Some (JString s), Some (JString t)) \<Rightarrow>
          if s = str_of ''healthy'' then
            Some (JObj [(''status'', JString s), (''timestamp'', JString t)])
          else None
      | _ \<Rightarrow> None)"

definition route_health :: "datetime \<Rightarrow> reply" where
  "route_health now =
     (case HealthResponse (health_check now) of
        Some body \<Rightarrow> JSONResponse body 200 []
      | None \<Rightarrow> PlainTextResponse ''Internal Server Error'' 500)"

subsection \<open>Clock readings and timestamps\<close>

text \<open>
  The values a Python \<^verbatim>\<open>datetime\<close> can hold: years 1 to 9999, a day that exists in its
  month, and a time of day with microseconds.
\<close>

definition is_leap :: "nat \<Rightarrow> bool" where
  "is_leap y = (y mod 4 = 0 \<and> (y mod 100 \<noteq> 0 \<or> y mod 400 = 0))"

definition days_in_month :: "nat \<Rightarrow> nat \<Rightarrow> nat" where
  "days_in_month y m =
     (if m = 2 then (if is_leap y then 29 else 28)
      else if m = 4 \<or> m = 6 \<or> m = 9 \<or> m = 11 then 30
      else 31)"

definition valid_datetime :: "datetime \<Rightarrow> bool" where
  "valid_datetime dt =
     (1 \<le> year dt \<and> year dt \<le> 9999 \<and>
      1 \<le> month dt \<and> month dt \<le> 12 \<and>
      1 \<le> day dt \<and> day dt \<le> days_in_month (year dt) (month dt) \<and>
      hour dt < 24 \<and> minute dt < 60 \<and> second dt < 60 \<and> microsecond dt < 1000000)"

text \<open>
  Two readings of the same clock compare as Python compares two datetimes of one time
  zone: field by field, the year first.
\<close>

definition datetime_key :: "datetime \<Rightarrow> nat list" where
  "datetime_key dt =
     [year dt, month dt, day dt, hour dt, minute dt, second dt, microsecond dt]"

definition datetime_le :: "datetime \<Rightarrow> datetime \<Rightarrow> bool" where
  "datetime_le a b = (datetime_key a \<le> datetime_key b)"

text \<open>
  A reader of ISO-8601 timestamps in UTC, the inverse the clients of the service need:
  \<^verbatim>\<open>YYYY-MM-DDTHH:MM:SS\<close>, an optional fraction of six digits, and the offset
  \<^verbatim>\<open>+00:00\<close>. It accepts only text that denotes a date and time that exist.
\<close>

definition is_digit :: "char \<Rightarrow> bool" where
  "is_digit c = (CHR ''0'' \<le> c \<and> c \<le> CHR ''9'')"

definition digit_val :: "char \<Rightarrow> nat" where
  "digit_val c = of_char c - 48"

definition nat_of_digits :: "string \<Rightarrow> nat option" where
  "nat_of_digits s =
     (if s \<noteq> [] \<and> list_all is_digit s
      then Some (foldl (\<lambda>a c. 10 * a + digit_val c) 0 s)
      else None)"

definition parse_date_time :: "string \<Rightarrow> nat \<Rightarrow> datetime option" where
  "parse_date_time s us =
     (case (nat_of_digits (take 4 s), nat_of_digits (take 2 (drop 5 s)),
            nat_of_digits (take 2 (drop 8 s)), nat_of_digits (take 2 (drop 11 s)),
            nat_of_digits (take 2 (drop 14 s)), nat_of_digits (take 2 (drop 17 s))) of
        (Some y, Some mo, Some d, Some h, Some mi, Some se) \<Rightarrow>
          (let dt = \<lparr> year = y, month = mo, day = d, hour = h, minute = mi, second = se,
                      microsecond = us \<rparr>
           in if take 1 (drop 4 s) = ''-'' \<and> take 1 (drop 7 s) = ''-'' \<and>
                 take 1 (drop 10 s) = ''T'' \<and> take 1 (drop 13 s) = '':'' \<and>
                 take 1 (drop 16 s) = '':'' \<and> valid_datetime dt
              then Some dt else None)
      | _ \<Rightarrow> None)"

definition parse_iso8601_utc :: "string \<Rightarrow> datetime option" where
  "parse_iso8601_utc s =
     (if length s = 25 \<and> drop 19 s = ''+00:00'' then parse_date_time (take 19 s) 0
      else if length s = 32 \<and> take 1 (drop 19 s) = ''.'' \<and> drop 26 s = ''+00:00'' then
        (case nat_of_digits (take 6 (drop 20 s)) of
           Some us \<Rightarrow> parse_date_time (take 19 s) us
         | None \<Rightarrow> None)
      else None)"

text \<open>The timestamp of a reply, when its body has one that is a string.\<close>

definition reply_timestamp :: "reply \<Rightarrow> pystr option" where
  "reply_timestamp r =
     (case json_field (reply_content r) ''timestamp'' of
        Some (JString t) \<Rightarrow> Some t
      | _ \<Rightarrow> None)"

text \<open>
  The two readings of the clock used in the examples below: a moment with a fraction of
  a second, and the start of the same second.
\<close>

abbreviation (input) example_now :: datetime where
  "example_now \<equiv> \<lparr> year = 2025, month = 10, day = 18, hour = 14, minute = 30, second = 45,
                     microsecond = 123456 \<rparr>"

abbreviation (input) example_earlier :: datetime where
  "example_earlier \<equiv> \<lparr> year = 2025, month = 10, day = 18, hour = 14, minute = 30, second = 45,
                         microsecond = 0 \<rparr>"

section \<open>Decimal text, order and reading back\<close>

text \<open>
  A number below \<open>10 ^ w\<close> is printed by \<open>zpad w\<close> as exactly \<open>w\<close> digits, texts of
  one width compare as their numbers do, and \<open>nat_of_digits\<close> reads the number back.
\<close>

lemma digit_char_less: "a < b \<Longrightarrow> b < 10 \<Longrightarrow> digit_char a < digit_char b"
  by (simp add: digit_char_def less_char_def)

lemma digit_char_zero: "digit_char 0 = CHR ''0''"
  by (simp add: digit_char_def char_of_def bit_0)

lemma digit_val_digit_char: "d < 10 \<Longrightarrow> digit_val (digit_char d) = d"
  by (simp add: digit_val_def digit_char_def)

lemma is_digit_digit_char: "d < 10 \<Longrightarrow> is_digit (digit_char d)"
  by (simp add: is_digit_def digit_char_def less_eq_char_def)

lemma length_digits: "length (digits w n) = w"
  by (induction w arbitrary: n) simp_all

lemma digits_zero: "digits w 0 = replicate w (CHR ''0'')"
  by (induction w) (simp_all add: digit_char_zero replicate_append_same)

lemma zpad_digits: "0 < w \<Longrightarrow> n < 10 ^ w \<Longrightarrow> zpad w n = digits w n"
proof (induction w arbitrary: n)
  case 0
  then show ?case by simp
next
  case (Suc w)
  show ?case
  proof (cases "n < 10")
    case True
    then have "n div 10 = 0" "n mod 10 = n" by simp_all
    with True show ?thesis
      by (simp add: zpad_def str_nat.simps digits_zero)
  next
    case False
    with Suc.prems have w: "0 < w" by (cases w) auto
    from Suc.prems have lt: "n div 10 < 10 ^ w" by (simp add: less_mult_imp_div_less mult.commute)
    have ih: "zpad w (n div 10) = digits w (n div 10)" using w lt by (rule Suc.IH)
    have s: "str_nat n = str_nat (n div 10) @ [digit_char (n mod 10)]"
      using False by (subst str_nat.simps) simp
    have "zpad (Suc w) n = zpad w (n div 10) @ [digit_char (n mod 10)]"
      by (simp add: zpad_def s)
    with ih show ?thesis by simp
  qed
qed

lemma less_append_same: "us < vs \<Longrightarrow> xs @ us < xs @ (vs :: 'a :: order list)"
  by (simp add: list_less_def lexord_append_leftI)

lemma less_append_eq_length:
  "xs < ys \<Longrightarrow> length xs = length ys \<Longrightarrow> xs @ us < ys @ (vs :: 'a :: order list)"
  by (simp add: list_less_def lexord_sufI)

lemma digits_less: "n < m \<Longrightarrow> m < 10 ^ w \<Longrightarrow> digits w n < digits w m"
proof (induction w arbitrary: n m)
  case 0
  then show ?case by simp
next
  case (Suc w)
  have le: "n div 10 \<le> m div 10" using Suc.prems(1) by (simp add: div_le_mono)
  show ?case
  proof (cases "n div 10 = m div 10")
    case True
    with Suc.prems(1) have "n mod 10 < m mod 10"
      by (metis add_less_cancel_left mult_div_mod_eq)
    then have "digit_char (n mod 10) < digit_char (m mod 10)"
      by (rule digit_char_less) simp
    with True show ?thesis by (simp add: less_append_same)
  next
    case False
    with le have "n div 10 < m div 10" by simp
    moreover from Suc.prems(2) have "m div 10 < 10 ^ w"
      by (simp add: less_mult_imp_div_less mult.commute)
    ultimately have "digits w (n div 10) < digits w (m div 10)" by (rule Suc.IH)
    then show ?thesis by (simp add: less_append_eq_length length_digits)
  qed
qed

lemma zpad_step:
  assumes "0 < w" "n < 10 ^ w" "m < 10 ^ w" and "n < m \<or> n = m \<and> r \<le> r'"
  shows "zpad w n @ r \<le> zpad w m @ r'"
proof -
  from assms(4) show ?thesis
  proof
    assume "n < m"
    then have "digits w n < digits w m" using assms(3) by (rule digits_less)
    then have "digits w n @ r < digits w m @ r'"
      by (rule less_append_eq_length) (simp add: length_digits)
    then show ?thesis using assms by (simp add: zpad_digits)
  next
    assume "n = m \<and> r \<le> r'"
    then show ?thesis
      by (auto simp: list_le_def less_append_same)
  qed
qed


lemma isoformat_tail_mono:
  assumes "u < 1000000" "v < 1000000" "u \<le> v"
  shows "(if u \<noteq> 0 then ''.'' @ zpad 6 u else []) @ ''+00:00''
         \<le> (if v \<noteq> 0 then ''.'' @ zpad 6 v else []) @ ''+00:00''"
proof (cases "u = v")
  case True
  then show ?thesis by simp
next
  case False
  with assms(3) have lt: "u < v" by simp
  show ?thesis
  proof (cases "u = 0")
    case True
    have "CHR ''+'' < CHR ''.''" by code_simp
    with True lt show ?thesis by simp
  next
    case False
    have "zpad 6 u @ ''+00:00'' \<le> zpad 6 v @ ''+00:00''"
      using assms(1,2) lt by (intro zpad_step) simp_all
    with False lt show ?thesis by simp
  qed
qed

lemma field_step:
  assumes "n < m \<or> n = m \<and> P" and "0 < w" "n < 10 ^ w" "m < 10 ^ w"
    and "P \<Longrightarrow> r \<le> r'"
  shows "zpad w n @ sep @ r \<le> zpad w m @ sep @ r'"
proof (rule zpad_step [OF assms(2-4)])
  from assms(1,5) show "n < m \<or> n = m \<and> sep @ r \<le> sep @ r'"
    by (auto simp: list_le_def less_append_same)
qed

lemma isoformat_mono:
  assumes a: "valid_datetime a" and b: "valid_datetime b" and le: "datetime_le a b"
  shows "isoformat a \<le> isoformat b"
proof -
  have days: "days_in_month y m < 100" for y m
    by (simp add: days_in_month_def)
  from a days [of "year a" "month a"] have ba:
    "year a < 10000" "month a < 100" "day a < 100" "hour a < 100"
    "minute a < 100" "second a < 100" "microsecond a < 1000000"
    by (simp_all add: valid_datetime_def)
  from b days [of "year b" "month b"] have bb:
    "year b < 10000" "month b < 100" "day b < 100" "hour b < 100"
    "minute b < 100" "second b < 100" "microsecond b < 1000000"
    by (simp_all add: valid_datetime_def)
  from le have key:
    "year a < year b \<or> year a = year b \<and>
      (month a < month b \<or> month a = month b \<and>
        (day a < day b \<or> day a = day b \<and>
          (hour a < hour b \<or> hour a = hour b \<and>
            (minute a < minute b \<or> minute a = minute b \<and>
              (second a < second b \<or> second a = second b \<and>
                 (microsecond a < microsecond b \<or> microsecond a = microsecond b))))))"
    by (simp add: datetime_le_def datetime_key_def)
  show ?thesis
    unfolding isoformat_def
    apply (rule field_step [where w = 4, OF key])
       apply (simp_all add: ba bb) [3]
    apply (erule field_step [where w = 2])
       apply (simp_all add: ba bb) [3]
    apply (erule field_step [where w = 2])
       apply (simp_all add: ba bb) [3]
    apply (erule field_step [where w = 2])
       apply (simp_all add: ba bb) [3]
    apply (erule field_step [where w = 2])
       apply (simp_all add: ba bb) [3]
    apply (rule zpad_step [where w = 2])
       apply (simp_all add: ba bb) [3]
    apply (erule disj_forward, assumption)
    apply (erule conj_forward, assumption)
    apply (rule isoformat_tail_mono [OF ba(7) bb(7)])
    apply (erule disjE)
     apply simp_all
    done
qed

lemma foldl_digits:
  "foldl (\<lambda>a c. 10 * a + digit_val c) 0 (digits w n) = n mod 10 ^ w"
proof (induction w arbitrary: n)
  case 0
  then show ?case by simp
next
  case (Suc w)
  have "10 * (n div 10 mod 10 ^ w) + n mod 10 = n mod (10 * 10 ^ w)"
    by (simp add: mod_mult2_eq)
  then show ?case by (simp add: Suc.IH digit_val_digit_char)
qed

lemma list_all_digits: "list_all is_digit (digits w n)"
  by (induction w arbitrary: n) (simp_all add: is_digit_digit_char)

lemma nat_of_digits_zpad:
  assumes "0 < w" "n < 10 ^ w"
  shows "nat_of_digits (zpad w n) = Some n"
proof -
  from assms(1) have "digits w n \<noteq> []"
    using length_digits [of w n] by auto
  with assms show ?thesis
    by (simp add: zpad_digits nat_of_digits_def list_all_digits foldl_digits)
qed

lemma length_zpad: "0 < w \<Longrightarrow> n < 10 ^ w \<Longrightarrow> length (zpad w n) = w"
  by (simp add: zpad_digits length_digits)

lemma parse_date_time_fields:
  assumes len: "length y4 = 4" "length m2 = 2" "length d2 = 2" "length h2 = 2"
      "length i2 = 2" "length s2 = 2"
    and val: "nat_of_digits y4 = Some (year dt)" "nat_of_digits m2 = Some (month dt)"
      "nat_of_digits d2 = Some (day dt)" "nat_of_digits h2 = Some (hour dt)"
      "nat_of_digits i2 = Some (minute dt)" "nat_of_digits s2 = Some (second dt)"
    and ok: "valid_datetime dt"
  shows "parse_date_time (y4 @ ''-'' @ m2 @ ''-'' @ d2 @ ''T'' @ h2 @ '':'' @ i2 @ '':'' @ s2)
           (microsecond dt) = Some dt"
proof -
  have eta: "\<lparr> year = year dt, month = month dt, day = day dt, hour = hour dt,
               minute = minute dt, second = second dt, microsecond = microsecond dt \<rparr> = dt"
    by (cases dt) simp
  from len val ok show ?thesis
    by (simp add: parse_date_time_def Let_def eta)
qed

lemma parse_isoformat:
  assumes ok: "valid_datetime dt"
  shows "parse_iso8601_utc (isoformat dt) = Some dt"
proof -
  have days: "days_in_month (year dt) (month dt) < 100"
    by (simp add: days_in_month_def)
  with ok have bd:
    "year dt < 10 ^ 4" "month dt < 10 ^ 2" "day dt < 10 ^ 2" "hour dt < 10 ^ 2"
    "minute dt < 10 ^ 2" "second dt < 10 ^ 2" "microsecond dt < 10 ^ 6"
    by (simp_all add: valid_datetime_def)
  note len = bd [THEN length_zpad [rotated]]
  note val = bd [THEN nat_of_digits_zpad [rotated]]
  define front where
    "front = zpad 4 (year dt) @ ''-'' @ zpad 2 (month dt) @ ''-'' @ zpad 2 (day dt) @ ''T''
       @ zpad 2 (hour dt) @ '':'' @ zpad 2 (minute dt) @ '':'' @ zpad 2 (second dt)"
  have lf: "length front = 19"
    using len by (simp add: front_def)
  have pf: "parse_date_time front (microsecond dt) = Some dt"
    unfolding front_def using len val ok by (intro parse_date_time_fields) simp_all
  have iso: "isoformat dt =
      front @ (if microsecond dt \<noteq> 0 then ''.'' @ zpad 6 (microsecond dt) else []) @ ''+00:00''"
    by (simp add: isoformat_def front_def)
  show ?thesis
  proof (cases "microsecond dt = 0")
    case True
    with pf lf show ?thesis by (simp add: iso parse_iso8601_utc_def)
  next
    case False
    with pf lf len(7) val(7) show ?thesis by (simp add: iso parse_iso8601_utc_def)
  qed
qed

lemma digit_char_simps:
  "digit_char 0 = CHR ''0''" "digit_char 1 = CHR ''1''" "digit_char (Suc 0) = CHR ''1''"
  "digit_char 2 = CHR ''2''"
  "digit_char 3 = CHR ''3''" "digit_char 4 = CHR ''4''" "digit_char 5 = CHR ''5''"
  "digit_char 6 = CHR ''6''" "digit_char 7 = CHR ''7''" "digit_char 8 = CHR ''8''"
  "digit_char 9 = CHR ''9''"
  by (simp_all add: digit_char_def char_of_def bit_0)

lemma str_nat_examples:
  "str_nat 2025 = ''2025''" "str_nat 10 = ''10''" "str_nat 18 = ''18''" "str_nat 14 = ''14''"
  "str_nat 30 = ''30''" "str_nat 45 = ''45''" "str_nat 123456 = ''123456''"
  "str_nat 500 = ''500''"
  by (simp_all add: str_nat.simps digit_char_simps)

lemma isoformat_example_now: "isoformat example_now = ''2025-10-18T14:30:45.123456+00:00''"
  by (simp add: isoformat_def zpad_def str_nat_examples)

lemma isoformat_example_earlier: "isoformat example_earlier = ''2025-10-18T14:30:45+00:00''"
  by (simp add: isoformat_def zpad_def str_nat_examples)

lemma valid_example_now: "valid_datetime example_now"
  by (simp add: valid_datetime_def days_in_month_def)

lemma valid_example_earlier: "valid_datetime example_earlier"
  by (simp add: valid_datetime_def days_in_month_def)

section \<open>Texts of the source as Python strings\<close>

lemma of_char_below_256: "(of_char c :: nat) < 256"
proof -
  have "(of_char c :: nat) mod 256 < 256" by simp
  then show ?thesis by (simp only: of_char_mod_256)
qed

lemma str_of_eq_iff [simp]: "str_of s = str_of t \<longleftrightarrow> s = t"
  by (simp add: str_of_def inj_map_eq_map inj_on_def)

lemma utf8_encodable_str_of [simp]: "utf8_encodable (str_of s)"
proof (induction s)
  case Nil
  show ?case by (simp add: utf8_encodable_def str_of_def)
next
  case (Cons c s)
  have "(of_char c :: nat) < 55296"
    by (rule less_trans [OF of_char_below_256]) simp
  with Cons show ?case by (simp add: utf8_encodable_def str_of_def)
qed

lemma str_of_less: "s < t \<Longrightarrow> str_of s < str_of t"
proof (induction s arbitrary: t)
  case Nil
  then show ?case by (cases t) (simp_all add: str_of_def)
next
  case (Cons c s)
  then show ?case
    by (cases t) (auto simp: str_of_def less_char_def)
qed

lemma str_of_mono: "s \<le> t \<Longrightarrow> str_of s \<le> str_of t"
  by (auto simp: list_le_def dest: str_of_less)

lemma JStr_eq_iff [simp]: "JStr s = JStr t \<longleftrightarrow> s = t"
  by (simp add: JStr_def)

lemma JString_eq_JStr [simp]: "JString p = JStr s \<longleftrightarrow> p = str_of s"
  by (simp add: JStr_def)

lemma JStr_eq_JString [simp]: "JStr s = JString p \<longleftrightarrow> str_of s = p"
  by (simp add: JStr_def)

lemma is_JString_JStr [simp]: "is_JString (JStr s)"
  by (simp add: JStr_def)

lemma json_field_JObj [simp]: "json_field (JObj kvs) k = map_of kvs k"
  by (induction kvs) (auto simp: JObj_def)

lemma has_nonfinite_JStr [simp]: "\<not> has_nonfinite (JStr s)"
  by (simp add: JStr_def)

lemma json_encodable_JStr [simp]: "json_encodable (JStr s)"
  by (simp add: JStr_def)

section \<open>The routes\<close>

lemmas me_defs =
  route_me_def get_profile_def get_profile_try_def json_response_def
  build_profile_response_def fetch_cat_fact_def fetch_cat_fact_try_def
  fetch_cat_fact_except_def raise_for_status_def dict_get_def get_current_timestamp_def

lemma JString_str_of: "JString (str_of s) = JStr s"
  by (simp add: JStr_def)

lemma has_nonfinite_user [simp]: "\<not> has_nonfinite (get_user_info env)"
  by (simp add: get_user_info_def JObj_def)

lemma json_encodable_user:
  "json_encodable (get_user_info env) \<longleftrightarrow>
     utf8_encodable (getenv env ''USER_EMAIL'' ''your.email@example.com'') \<and>
     utf8_encodable (getenv env ''USER_NAME'' ''Your Full Name'') \<and>
     utf8_encodable (getenv env ''USER_STACK'' ''Python/FastAPI'')"
  by (simp add: get_user_info_def JObj_def)

lemma has_nonfinite_payload:
  "has_nonfinite (JObj [(''status'', JStr ''success''), (''user'', get_user_info env),
      (''timestamp'', JStr t), (''fact'', f)]) = has_nonfinite f"
  using has_nonfinite_user [of env] has_nonfinite_JStr by (simp add: JObj_def)

lemma json_encodable_payload:
  "json_encodable (JObj [(''status'', JStr ''success''), (''user'', get_user_info env),
      (''timestamp'', JStr t), (''fact'', f)])
     = (json_encodable (get_user_info env) \<and> json_encodable f)"
  using json_encodable_JStr by (simp add: JObj_def)

lemma fetch_cat_fact_object:
  assumes "is_success (status_code r)" and "json_of r = Inr (JObject d)"
  shows "fetch_cat_fact (Responds r) = Inr (dict_get d (str_of ''fact'') (JStr fallback_fact))"
  using assms by (simp add: fetch_cat_fact_def fetch_cat_fact_try_def raise_for_status_def)

lemma route_me_success:
  assumes "fetch_cat_fact up = Inr f"
    and "\<not> has_nonfinite f" and "json_encodable f" and "json_encodable (get_user_info env)"
  shows "route_me env now up =
     JSONResponse (JObj [(''status'', JStr ''success''), (''user'', get_user_info env),
                         (''timestamp'', JStr (get_current_timestamp now)), (''fact'', f)])
       200 [(''Content-Type'', ''application/json'')]"
  using assms
  by (simp add: route_me_def get_profile_def get_profile_try_def json_response_def render_def
      build_profile_response_def has_nonfinite_payload json_encodable_payload)

lemma render_fails:
  assumes "has_nonfinite p \<or> \<not> json_encodable p"
  obtains e where "render p = Inl e" and "\<not> is_HTTPException e"
  using assms by (cases "has_nonfinite p") (simp_all add: render_def)

lemma route_me_render_error:
  assumes "fetch_cat_fact up = Inr f"
    and "render (JObj [(''status'', JStr ''success''), (''user'', get_user_info env),
            (''timestamp'', JStr (get_current_timestamp now)), (''fact'', f)]) = Inl e"
    and "\<not> is_HTTPException e"
  shows "route_me env now up =
     JSONResponse (JObj [(''detail'', JStr (''Internal server error: '' @ str_exc e))]) 500 []"
  using assms
  by (simp add: route_me_def get_profile_def get_profile_try_def json_response_def
      build_profile_response_def)

lemma route_me_render_failure:
  assumes "fetch_cat_fact up = Inr f"
    and "has_nonfinite f \<or> \<not> json_encodable f \<or> \<not> json_encodable (get_user_info env)"
  shows "\<exists>m. route_me env now up =
     JSONResponse (JObj [(''detail'', JStr (''Internal server error: '' @ m))]) 500 []"
proof -
  let ?p = "JObj [(''status'', JStr ''success''), (''user'', get_user_info env),
            (''timestamp'', JStr (get_current_timestamp now)), (''fact'', f)]"
  from assms(2) have "has_nonfinite ?p \<or> \<not> json_encodable ?p"
    by (auto simp: has_nonfinite_payload json_encodable_payload)
  then obtain e where "render ?p = Inl e" and "\<not> is_HTTPException e"
    by (rule render_fails)
  with assms(1) have "route_me env now up =
     JSONResponse (JObj [(''detail'', JStr (''Internal server error: '' @ str_exc e))]) 500 []"
    by (rule route_me_render_error)
  then show ?thesis ..
qed

lemma fetch_cat_fact_error:
  assumes "fetch_cat_fact up = Inl e"
  obtains d where "e = HTTPException 503 d" | d where "e = HTTPException 500 d"
  using assms
  by (auto simp: fetch_cat_fact_def fetch_cat_fact_except_def split: sum.splits if_splits)

lemma route_me_failure:
  assumes "fetch_cat_fact up = Inl (HTTPException c d)"
  shows "route_me env now up = JSONResponse (JObj [(''detail'', JStr d)]) c []"
  using assms
  by (simp add: route_me_def get_profile_def get_profile_try_def build_profile_response_def)

lemma route_me_200:
  assumes "reply_status (route_me env now up) = 200"
  obtains f where "fetch_cat_fact up = Inr f" and "\<not> has_nonfinite f"
    and "json_encodable f" and "json_encodable (get_user_info env)"
proof (cases "fetch_cat_fact up")
  case (Inl e)
  then obtain c d where e: "e = HTTPException c d" and c: "c = 503 \<or> c = 500"
    by (elim fetch_cat_fact_error) auto
  from Inl e have "reply_status (route_me env now up) = c"
    by (simp add: route_me_failure)
  with assms c have False by auto
  then show ?thesis ..
next
  case (Inr f)
  show ?thesis
  proof (cases "has_nonfinite f \<or> \<not> json_encodable f \<or> \<not> json_encodable (get_user_info env)")
    case True
    with Inr obtain m where "route_me env now up =
        JSONResponse (JObj [(''detail'', JStr (''Internal server error: '' @ m))]) 500 []"
      using route_me_render_failure by blast
    with assms have False by simp
    then show ?thesis ..
  next
    case False
    with Inr show ?thesis by (intro that) auto
  qed
qed

lemma route_health_reply:
  "route_health now =
     JSONResponse (JObj [(''status'', JStr ''healthy''), (''timestamp'', JStr (isoformat now))])
       200 []"
  by (simp add: route_health_def HealthResponse_def health_check_def get_current_timestamp_def
      JStr_def JObj_def)

lemma reply_timestamp_health:
  "reply_timestamp (route_health now) = Some (str_of (isoformat now))"
  by (simp add: reply_timestamp_def route_health_reply) (simp add: JStr_def)

lemma reply_timestamp_me:
  assumes "reply_timestamp (route_me env now up) = Some s"
  shows "s = str_of (isoformat now)"
proof (cases "fetch_cat_fact up")
  case (Inl e)
  then obtain c d where "e = HTTPException c d"
    by (elim fetch_cat_fact_error) auto
  with Inl assms show ?thesis
    by (simp add: route_me_failure reply_timestamp_def)
next
  case (Inr f)
  show ?thesis
  proof (cases "has_nonfinite f \<or> \<not> json_encodable f \<or> \<not> json_encodable (get_user_info env)")
    case True
    with Inr obtain m where "route_me env now up =
        JSONResponse (JObj [(''detail'', JStr (''Internal server error: '' @ m))]) 500 []"
      using route_me_render_failure by blast
    with assms show ?thesis by (simp add: reply_timestamp_def)
  next
    case False
    with Inr have "route_me env now up =
     JSONResponse (JObj [(''status'', JStr ''success''), (''user'', get_user_info env),
                         (''timestamp'', JStr (get_current_timestamp now)), (''fact'', f)])
       200 [(''Content-Type'', ''application/json'')]"
      by (intro route_me_success) auto
    with assms show ?thesis
      by (simp add: reply_timestamp_def get_current_timestamp_def) (simp add: JStr_def)
  qed
qed

lemma route_me_status_500:
  assumes "fetch_cat_fact up = Inr f"
    and "has_nonfinite f \<or> \<not> json_encodable f \<or> \<not> json_encodable (get_user_info env)"
  shows "reply_status (route_me env now up) = 500"
proof -
  from assms obtain m where "route_me env now up =
     JSONResponse (JObj [(''detail'', JStr (''Internal server error: '' @ m))]) 500 []"
    using route_me_render_failure by blast
  then show ?thesis by simp
qed

lemma json_encodable_user_empty: "json_encodable (get_user_info Map.empty)"
  by (simp add: json_encodable_user getenv_def)

lemma get_user_info_empty:
  "get_user_info Map.empty =
     JObj [(''email'', JStr ''your.email@example.com''), (''name'', JStr ''Your Full Name''),
           (''stack'', JStr ''Python/FastAPI'')]"
  by (simp add: get_user_info_def getenv_def JString_str_of)

section \<open>The claims\<close>

subsection \<open>C1: a 2xx response whose body is not a JSON object\<close>

text \<open>
  C1 as stated fails: a body that does not decode makes \<^verbatim>\<open>response.json()\<close> raise inside
  the \<^verbatim>\<open>try\<close> block, the last \<^verbatim>\<open>except\<close> clause turns that into an HTTPException with
  status 500, and the route \<^verbatim>\<open>/me\<close> answers 500, not 200 with the fallback fact.
\<close>

theorem malformed_body_counterexample:
  "fetch_cat_fact (Responds \<lparr> status_code = 200, status_message = ''OK'',
       json_of = Inl (JSONDecodeError ''Expecting value: line 1 column 1 (char 0)'') \<rparr>)
     = Inl (HTTPException 500
         ''Unexpected error while fetching cat fact: Expecting value: line 1 column 1 (char 0)'')
   \<and> reply_status (route_me Map.empty example_now
        (Responds \<lparr> status_code = 200, status_message = ''OK'',
           json_of = Inl (JSONDecodeError ''Expecting value: line 1 column 1 (char 0)'') \<rparr>))
     = 500"
  by (simp add: me_defs is_success_def)

text \<open>
  C1 (amended): for every 2xx upstream response on which \<^verbatim>\<open>response.json()\<close> raises an
  exception that is not an httpx error (the decoding errors JSONDecodeError and
  UnicodeDecodeError are such), and for every 2xx response whose decoded body is not a
  JSON object, \<^verbatim>\<open>fetch_cat_fact\<close> raises an HTTPException with status 500 and the detail
  \<^verbatim>\<open>Unexpected error while fetching cat fact:\<close> followed by the message of the error, and
  \<^verbatim>\<open>/me\<close> answers 500 with that detail. Whenever \<^verbatim>\<open>fetch_cat_fact\<close> returns a value, the
  body decoded to a JSON object and the value is the one under the key \<^verbatim>\<open>fact\<close>, or the
  fallback string when the object has no such key.
\<close>

theorem malformed_body_is_error:
  assumes "is_success (status_code r)"
    and "json_of r = Inl e"
    and "\<not> is_TimeoutException e" and "\<not> is_HTTPStatusError e" and "\<not> is_RequestError e"
    and "is_success (status_code r')"
    and "json_of r' = Inr v" and "\<not> is_JObject v"
    and "fetch_cat_fact (Responds r'') = Inr x"
  shows "fetch_cat_fact (Responds r) =
           Inl (HTTPException 500 (''Unexpected error while fetching cat fact: '' @ str_exc e))
       \<and> route_me env now (Responds r) =
           JSONResponse (JObj [(''detail'',
             JStr (''Unexpected error while fetching cat fact: '' @ str_exc e))]) 500 []
       \<and> fetch_cat_fact (Responds r') =
           Inl (HTTPException 500 (''Unexpected error while fetching cat fact: ''
                  @ str_exc (no_attribute_get v)))
       \<and> route_me env now (Responds r') =
           JSONResponse (JObj [(''detail'',
             JStr (''Unexpected error while fetching cat fact: ''
                  @ str_exc (no_attribute_get v)))]) 500 []
       \<and> (\<exists>d. json_of r'' = Inr (JObject d) \<and>
              x = (case map_of d (str_of ''fact'') of
                     None \<Rightarrow> JStr ''Cats are amazing creatures!''
                   | Some y \<Rightarrow> y))"
proof -
  from assms(1-5) have a: "fetch_cat_fact (Responds r) =
      Inl (HTTPException 500 (''Unexpected error while fetching cat fact: '' @ str_exc e))"
    by (simp add: fetch_cat_fact_def fetch_cat_fact_try_def fetch_cat_fact_except_def
        raise_for_status_def)
  from assms(8) have "fetch_cat_fact_try (Responds r') = Inl (no_attribute_get v)"
    using assms(6,7) by (cases v) (simp_all add: fetch_cat_fact_try_def raise_for_status_def)
  then have b: "fetch_cat_fact (Responds r') =
      Inl (HTTPException 500 (''Unexpected error while fetching cat fact: ''
             @ str_exc (no_attribute_get v)))"
    by (simp add: fetch_cat_fact_def fetch_cat_fact_except_def no_attribute_get_def)
  from assms(9) have c: "\<exists>d. json_of r'' = Inr (JObject d) \<and>
              x = (case map_of d (str_of ''fact'') of
                     None \<Rightarrow> JStr ''Cats are amazing creatures!''
                   | Some y \<Rightarrow> y)"
    by (auto simp: fetch_cat_fact_def fetch_cat_fact_try_def dict_get_def fallback_fact_def
        split: sum.splits json.splits)
  from a b c show ?thesis by (simp add: route_me_failure)
qed

theorem malformed_body_is_error_witness:
  "is_success 200 \<and> \<not> is_JObject (JArr [JStr ''a fact'']) \<and>
   route_me Map.empty example_now
     (Responds \<lparr> status_code = 200, status_message = ''OK'',
        json_of = Inl (UnicodeDecodeError ([CHR 0x27] @ ''utf-8'' @ [CHR 0x27] @ '' codec can''
          @ [CHR 0x27] @ ''t decode byte 0xff in position 0: invalid start byte'')) \<rparr>) =
     JSONResponse (JObj [(''detail'',
       JStr (''Unexpected error while fetching cat fact: '' @ [CHR 0x27] @ ''utf-8''
          @ [CHR 0x27] @ '' codec can'' @ [CHR 0x27]
          @ ''t decode byte 0xff in position 0: invalid start byte''))]) 500 [] \<and>
   reply_status (route_me Map.empty example_now
     (Responds \<lparr> status_code = 200, status_message = ''OK'',
        json_of = Inr (JArr [JStr ''a fact'']) \<rparr>)) = 500 \<and>
   fetch_cat_fact (Responds \<lparr> status_code = 200, status_message = ''OK'',
        json_of = Inr (JObject [(str_of ''length'', JInt 39)]) \<rparr>)
     = Inr (JStr ''Cats are amazing creatures!'')"
proof -
  have h: "fetch_cat_fact (Responds \<lparr> status_code = 200, status_message = ''OK'',
        json_of = Inr (JObject [(str_of ''length'', JInt 39)]) \<rparr>)
     = Inr (JStr ''Cats are amazing creatures!'')"
    by (simp add: fetch_cat_fact_def fetch_cat_fact_try_def raise_for_status_def
        is_success_def dict_get_def fallback_fact_def)
  from malformed_body_is_error
    [of "\<lparr> status_code = 200, status_message = ''OK'',
        json_of = Inl (UnicodeDecodeError ([CHR 0x27] @ ''utf-8'' @ [CHR 0x27] @ '' codec can''
          @ [CHR 0x27] @ ''t decode byte 0xff in position 0: invalid start byte'')) \<rparr>"
        "UnicodeDecodeError ([CHR 0x27] @ ''utf-8'' @ [CHR 0x27] @ '' codec can''
          @ [CHR 0x27] @ ''t decode byte 0xff in position 0: invalid start byte'')"
        "\<lparr> status_code = 200, status_message = ''OK'',
           json_of = Inr (JArr [JStr ''a fact'']) \<rparr>"
        "JArr [JStr ''a fact'']"
        "\<lparr> status_code = 200, status_message = ''OK'',
        json_of = Inr (JObject [(str_of ''length'', JInt 39)]) \<rparr>"
        "JStr ''Cats are amazing creatures!''" Map.empty example_now, OF _ _ _ _ _ _ _ _ h]
  show ?thesis using h by (simp add: is_success_def)
qed

subsection \<open>C2: the user object\<close>

text \<open>
  C2 fails on the code: started with no \<^verbatim>\<open>USER_STACK\<close> in the environment, the
  configuration resolves the stack \<^verbatim>\<open>JavaScript/Nodejs\<close> (the value the start-up banner
  prints), while \<^verbatim>\<open>get_user_info\<close> falls back to a default of its own,
  \<^verbatim>\<open>Python/FastAPI\<close>; the user object of \<^verbatim>\<open>/me\<close> is not the configured user.
\<close>

theorem me_user_stack_default_mismatch:
  "json_field (reply_content (route_me Map.empty example_now
      (Responds \<lparr> status_code = 200, status_message = ''OK'',
         json_of = Inr (JObject [(str_of ''fact'', JStr ''Cats purr.'')]) \<rparr>))) ''user''
     = Some (JObj [(''email'', JStr ''your.email@example.com''),
                   (''name'', JStr ''Your Full Name''),
                   (''stack'', JStr ''Python/FastAPI'')])
   \<and> configured_user (settings Map.empty)
     = JObj [(''email'', JStr ''your.email@example.com''),
             (''name'', JStr ''Your Full Name''),
             (''stack'', JStr ''JavaScript/Nodejs'')]
   \<and> json_field (reply_content (route_me Map.empty example_now
      (Responds \<lparr> status_code = 200, status_message = ''OK'',
         json_of = Inr (JObject [(str_of ''fact'', JStr ''Cats purr.'')]) \<rparr>))) ''user''
     \<noteq> Some (configured_user (settings Map.empty))"
proof -
  have f: "fetch_cat_fact (Responds \<lparr> status_code = 200, status_message = ''OK'',
         json_of = Inr (JObject [(str_of ''fact'', JStr ''Cats purr.'')]) \<rparr>)
      = Inr (JStr ''Cats purr.'')"
    by (simp add: fetch_cat_fact_def fetch_cat_fact_try_def raise_for_status_def
        is_success_def dict_get_def)
  have u: "json_field (reply_content (route_me Map.empty example_now
      (Responds \<lparr> status_code = 200, status_message = ''OK'',
         json_of = Inr (JObject [(str_of ''fact'', JStr ''Cats purr.'')]) \<rparr>))) ''user''
     = Some (get_user_info Map.empty)"
    by (simp add: route_me_success [OF f] json_encodable_user_empty)
  have c: "configured_user (settings Map.empty)
     = JObj [(''email'', JStr ''your.email@example.com''),
             (''name'', JStr ''Your Full Name''),
             (''stack'', JStr ''JavaScript/Nodejs'')]"
    by (simp add: configured_user_def settings_def getenv_def JString_str_of)
  have n: "get_user_info Map.empty \<noteq> configured_user (settings Map.empty)"
    by (simp add: get_user_info_def configured_user_def settings_def getenv_def JObj_def)
  from u c n show ?thesis by (simp add: get_user_info_empty)
qed

subsection \<open>C3: the success payload\<close>

text \<open>
  C3 as stated fails: the fact is whatever the upstream object holds under \<^verbatim>\<open>fact\<close>. An
  empty string there gives a successful payload, and a 200 reply, with an empty fact; a
  \<^verbatim>\<open>null\<close> there gives one whose fact is not a string.
\<close>

theorem empty_fact_counterexample:
  "build_profile_response Map.empty example_now
      (Responds \<lparr> status_code = 200, status_message = ''OK'',
         json_of = Inr (JObject [(str_of ''fact'', JString []), (str_of ''length'', JInt 0)]) \<rparr>)
     = Inr (JObj [(''status'', JStr ''success''),
                  (''user'', get_user_info Map.empty),
                  (''timestamp'', JStr (get_current_timestamp example_now)),
                  (''fact'', JString [])])
   \<and> reply_status (route_me Map.empty example_now
      (Responds \<lparr> status_code = 200, status_message = ''OK'',
         json_of = Inr (JObject [(str_of ''fact'', JString []), (str_of ''length'', JInt 0)]) \<rparr>))
     = 200
   \<and> build_profile_response Map.empty example_now
      (Responds \<lparr> status_code = 200, status_message = ''OK'',
         json_of = Inr (JObject [(str_of ''fact'', JNull)]) \<rparr>)
     = Inr (JObj [(''status'', JStr ''success''),
                  (''user'', get_user_info Map.empty),
                  (''timestamp'', JStr (get_current_timestamp example_now)),
                  (''fact'', JNull)])
   \<and> reply_status (route_me Map.empty example_now
      (Responds \<lparr> status_code = 200, status_message = ''OK'',
         json_of = Inr (JObject [(str_of ''fact'', JNull)]) \<rparr>))
     = 200"
proof -
  have f: "fetch_cat_fact (Responds \<lparr> status_code = 200, status_message = ''OK'',
         json_of = Inr (JObject [(str_of ''fact'', JString []), (str_of ''length'', JInt 0)]) \<rparr>)
     = Inr (JString [])"
    by (simp add: fetch_cat_fact_def fetch_cat_fact_try_def raise_for_status_def
        is_success_def dict_get_def)
  have g: "fetch_cat_fact (Responds \<lparr> status_code = 200, status_message = ''OK'',
         json_of = Inr (JObject [(str_of ''fact'', JNull)]) \<rparr>) = Inr JNull"
    by (simp add: fetch_cat_fact_def fetch_cat_fact_try_def raise_for_status_def
        is_success_def dict_get_def)
  show ?thesis
    by (simp add: build_profile_response_def f g route_me_success [OF f]
        route_me_success [OF g] json_encodable_user_empty utf8_encodable_def)
qed

text \<open>
  C3 (amended): every successful result of \<^verbatim>\<open>build_profile_response\<close>, and the content
  of every 200 reply of \<^verbatim>\<open>/me\<close>, is an object with exactly the four fields status, user,
  timestamp and fact: the status is the constant \<^verbatim>\<open>success\<close>, the user is the object of
  the three values \<^verbatim>\<open>get_user_info\<close> reads, the timestamp is the ISO string of the clock
  reading, and the fact is the value \<^verbatim>\<open>fetch_cat_fact\<close> returned, which may be an empty
  string or not a string.
\<close>

theorem profile_payload_complete:
  assumes "build_profile_response env now up = Inr p"
    and "reply_status (route_me env' now' up') = 200"
  shows "(\<exists>f. fetch_cat_fact up = Inr f \<and>
           p = JObj [(''status'', JStr ''success''),
                     (''user'',
                      JObj [(''email'', JString (getenv env ''USER_EMAIL'' ''your.email@example.com'')),
                            (''name'', JString (getenv env ''USER_NAME'' ''Your Full Name'')),
                            (''stack'', JString (getenv env ''USER_STACK'' ''Python/FastAPI''))]),
                     (''timestamp'', JStr (isoformat now)),
                     (''fact'', f)])
       \<and> (\<exists>f'. fetch_cat_fact up' = Inr f' \<and>
           reply_content (route_me env' now' up') =
             JObj [(''status'', JStr ''success''),
                     (''user'',
                      JObj [(''email'', JString (getenv env' ''USER_EMAIL'' ''your.email@example.com'')),
                            (''name'', JString (getenv env' ''USER_NAME'' ''Your Full Name'')),
                            (''stack'', JString (getenv env' ''USER_STACK'' ''Python/FastAPI''))]),
                     (''timestamp'', JStr (isoformat now')),
                     (''fact'', f')])"
proof
  from assms(1) show "\<exists>f. fetch_cat_fact up = Inr f \<and>
           p = JObj [(''status'', JStr ''success''),
                     (''user'',
                      JObj [(''email'', JString (getenv env ''USER_EMAIL'' ''your.email@example.com'')),
                            (''name'', JString (getenv env ''USER_NAME'' ''Your Full Name'')),
                            (''stack'', JString (getenv env ''USER_STACK'' ''Python/FastAPI''))]),
                     (''timestamp'', JStr (isoformat now)),
                     (''fact'', f)]"
    by (auto simp: build_profile_response_def get_user_info_def get_current_timestamp_def
        split: sum.splits)
next
  from assms(2) obtain f' where f': "fetch_cat_fact up' = Inr f'"
    and ok: "\<not> has_nonfinite f'" "json_encodable f'" "json_encodable (get_user_info env')"
    by (rule route_me_200)
  from route_me_success [OF f' ok, of now']
  have "reply_content (route_me env' now' up') =
             JObj [(''status'', JStr ''success''),
                     (''user'',
                      JObj [(''email'', JString (getenv env' ''USER_EMAIL'' ''your.email@example.com'')),
                            (''name'', JString (getenv env' ''USER_NAME'' ''Your Full Name'')),
                            (''stack'', JString (getenv env' ''USER_STACK'' ''Python/FastAPI''))]),
                     (''timestamp'', JStr (isoformat now')),
                     (''fact'', f')]"
    by (simp add: get_user_info_def get_current_timestamp_def)
  with f' show "\<exists>f'. fetch_cat_fact up' = Inr f' \<and>
           reply_content (route_me env' now' up') =
             JObj [(''status'', JStr ''success''),
                     (''user'',
                      JObj [(''email'', JString (getenv env' ''USER_EMAIL'' ''your.email@example.com'')),
                            (''name'', JString (getenv env' ''USER_NAME'' ''Your Full Name'')),
                            (''stack'', JString (getenv env' ''USER_STACK'' ''Python/FastAPI''))]),
                     (''timestamp'', JStr (isoformat now')),
                     (''fact'', f')]"
    by blast
qed

theorem profile_payload_complete_witness:
  "build_profile_response Map.empty example_now
      (Responds \<lparr> status_code = 200, status_message = ''OK'',
         json_of = Inr (JObject [(str_of ''fact'', JStr ''Cats purr.'')]) \<rparr>)
     = Inr (JObj [(''status'', JStr ''success''),
                  (''user'', JObj [(''email'', JStr ''your.email@example.com''),
                                   (''name'', JStr ''Your Full Name''),
                                   (''stack'', JStr ''Python/FastAPI'')]),
                  (''timestamp'', JStr ''2025-10-18T14:30:45.123456+00:00''),
                  (''fact'', JStr ''Cats purr.'')])
   \<and> reply_status (route_me Map.empty example_now
      (Responds \<lparr> status_code = 200, status_message = ''OK'',
         json_of = Inr (JObject [(str_of ''fact'', JStr ''Cats purr.'')]) \<rparr>)) = 200
   \<and> reply_content (route_me Map.empty example_now
      (Responds \<lparr> status_code = 200, status_message = ''OK'',
         json_of = Inr (JObject [(str_of ''fact'', JStr ''Cats purr.'')]) \<rparr>))
     = JObj [(''status'', JStr ''success''),
                  (''user'', JObj [(''email'', JStr ''your.email@example.com''),
                                   (''name'', JStr ''Your Full Name''),
                                   (''stack'', JStr ''Python/FastAPI'')]),
                  (''timestamp'', JStr ''2025-10-18T14:30:45.123456+00:00''),
                  (''fact'', JStr ''Cats purr.'')]"
proof -
  have f: "fetch_cat_fact (Responds \<lparr> status_code = 200, status_message = ''OK'',
         json_of = Inr (JObject [(str_of ''fact'', JStr ''Cats purr.'')]) \<rparr>)
      = Inr (JStr ''Cats purr.'')"
    by (simp add: fetch_cat_fact_def fetch_cat_fact_try_def raise_for_status_def
        is_success_def dict_get_def)
  have h: "build_profile_response Map.empty example_now
      (Responds \<lparr> status_code = 200, status_message = ''OK'',
         json_of = Inr (JObject [(str_of ''fact'', JStr ''Cats purr.'')]) \<rparr>)
     = Inr (JObj [(''status'', JStr ''success''),
                  (''user'', JObj [(''email'', JStr ''your.email@example.com''),
                                   (''name'', JStr ''Your Full Name''),
                                   (''stack'', JStr ''Python/FastAPI'')]),
                  (''timestamp'', JStr ''2025-10-18T14:30:45.123456+00:00''),
                  (''fact'', JStr ''Cats purr.'')])"
    by (simp add: build_profile_response_def f get_user_info_empty get_current_timestamp_def
        isoformat_example_now)
  have s: "reply_status (route_me Map.empty example_now
      (Responds \<lparr> status_code = 200, status_message = ''OK'',
         json_of = Inr (JObject [(str_of ''fact'', JStr ''Cats purr.'')]) \<rparr>)) = 200"
    by (simp add: route_me_success [OF f] json_encodable_user_empty)
  from profile_payload_complete [OF h s] f h s show ?thesis
    by (simp add: getenv_def JString_str_of isoformat_example_now)
qed

subsection \<open>C4: the status of a failed upstream call\<close>

text \<open>
  C4: a timeout, an upstream response with a 4xx or 5xx status (the detail ends with the
  upstream status code) and any other request error each make \<^verbatim>\<open>/me\<close> answer 503 with
  a message; any other exception of the upstream call makes it answer 500.
\<close>

theorem me_failure_status:
  "(is_TimeoutException e1 \<longrightarrow>
      route_me env now (Raises e1) =
        JSONResponse (JObj [(''detail'',
          JStr ''Cat Facts API is taking too long to respond. Please try again.'')]) 503 [])
   \<and> (400 \<le> status_code r \<and> status_code r \<le> 599 \<longrightarrow>
      route_me env now (Responds r) =
        JSONResponse (JObj [(''detail'',
          JStr (''Cat Facts API returned an error: '' @ str_nat (status_code r)))]) 503 [])
   \<and> (is_RequestError e2 \<and> \<not> is_TimeoutException e2 \<longrightarrow>
      route_me env now (Raises e2) =
        JSONResponse (JObj [(''detail'',
          JStr (''Failed to connect to Cat Facts API: '' @ str_exc e2))]) 503 [])
   \<and> (\<not> is_TimeoutException e3 \<and> \<not> is_HTTPStatusError e3 \<and> \<not> is_RequestError e3 \<longrightarrow>
      route_me env now (Raises e3) =
        JSONResponse (JObj [(''detail'',
          JStr (''Unexpected error while fetching cat fact: '' @ str_exc e3))]) 500 [])"
proof (intro conjI impI)
  assume "is_TimeoutException e1"
  then have "fetch_cat_fact (Raises e1) = Inl (HTTPException 503
      ''Cat Facts API is taking too long to respond. Please try again.'')"
    by (simp add: fetch_cat_fact_def fetch_cat_fact_try_def fetch_cat_fact_except_def)
  then show "route_me env now (Raises e1) =
        JSONResponse (JObj [(''detail'',
          JStr ''Cat Facts API is taking too long to respond. Please try again.'')]) 503 []"
    by (rule route_me_failure)
next
  assume "400 \<le> status_code r \<and> status_code r \<le> 599"
  then have "\<not> is_success (status_code r)" by (simp add: is_success_def)
  then have "fetch_cat_fact (Responds r) = Inl (HTTPException 503
      (''Cat Facts API returned an error: '' @ str_nat (status_code r)))"
    by (simp add: fetch_cat_fact_def fetch_cat_fact_try_def fetch_cat_fact_except_def
        raise_for_status_def)
  then show "route_me env now (Responds r) =
        JSONResponse (JObj [(''detail'',
          JStr (''Cat Facts API returned an error: '' @ str_nat (status_code r)))]) 503 []"
    by (rule route_me_failure)
next
  assume "is_RequestError e2 \<and> \<not> is_TimeoutException e2"
  then have "fetch_cat_fact (Raises e2) = Inl (HTTPException 503
      (''Failed to connect to Cat Facts API: '' @ str_exc e2))"
    by (cases e2)
      (simp_all add: fetch_cat_fact_def fetch_cat_fact_try_def fetch_cat_fact_except_def)
  then show "route_me env now (Raises e2) =
        JSONResponse (JObj [(''detail'',
          JStr (''Failed to connect to Cat Facts API: '' @ str_exc e2))]) 503 []"
    by (rule route_me_failure)
next
  assume "\<not> is_TimeoutException e3 \<and> \<not> is_HTTPStatusError e3 \<and> \<not> is_RequestError e3"
  then have "fetch_cat_fact (Raises e3) = Inl (HTTPException 500
      (''Unexpected error while fetching cat fact: '' @ str_exc e3))"
    by (simp add: fetch_cat_fact_def fetch_cat_fact_try_def fetch_cat_fact_except_def)
  then show "route_me env now (Raises e3) =
        JSONResponse (JObj [(''detail'',
          JStr (''Unexpected error while fetching cat fact: '' @ str_exc e3))]) 500 []"
    by (rule route_me_failure)
qed

theorem me_failure_status_witness:
  "route_me Map.empty example_now (Raises (TimeoutException ''timed out'')) =
     JSONResponse (JObj [(''detail'',
       JStr ''Cat Facts API is taking too long to respond. Please try again.'')]) 503 []
   \<and> route_me Map.empty example_now
       (Responds \<lparr> status_code = 500, status_message = ''Server error'',
                   json_of = Inl (JSONDecodeError ''Expecting value'') \<rparr>) =
     JSONResponse (JObj [(''detail'', JStr ''Cat Facts API returned an error: 500'')]) 503 []
   \<and> route_me Map.empty example_now (Raises (RequestError ''Connection refused'')) =
     JSONResponse (JObj [(''detail'',
       JStr ''Failed to connect to Cat Facts API: Connection refused'')]) 503 []
   \<and> route_me Map.empty example_now (Raises (OtherException ''boom'')) =
     JSONResponse (JObj [(''detail'',
       JStr ''Unexpected error while fetching cat fact: boom'')]) 500 []"
  using me_failure_status
    [of "TimeoutException ''timed out''" Map.empty example_now
        "\<lparr> status_code = 500, status_message = ''Server error'',
           json_of = Inl (JSONDecodeError ''Expecting value'') \<rparr>"
        "RequestError ''Connection refused''" "OtherException ''boom''"]
  by (simp add: str_nat_examples)

subsection \<open>C5: the fact of the upstream response\<close>

text \<open>
  C5 as stated fails: the JSONResponse is constructed inside the \<^verbatim>\<open>try\<close> block of
  \<^verbatim>\<open>get_profile\<close>, and a fact with a lone surrogate, which the upstream body can carry
  as an escape, cannot be encoded; \<^verbatim>\<open>/me\<close> answers 500.
\<close>

theorem surrogate_fact_counterexample:
  "fetch_cat_fact (Responds \<lparr> status_code = 200, status_message = ''OK'',
         json_of = Inr (JObject [(str_of ''fact'', JString [0xD800])]) \<rparr>)
     = Inr (JString [0xD800])
   \<and> reply_status (route_me Map.empty example_now
      (Responds \<lparr> status_code = 200, status_message = ''OK'',
         json_of = Inr (JObject [(str_of ''fact'', JString [0xD800])]) \<rparr>)) = 500"
proof -
  have f: "fetch_cat_fact (Responds \<lparr> status_code = 200, status_message = ''OK'',
         json_of = Inr (JObject [(str_of ''fact'', JString [0xD800])]) \<rparr>)
     = Inr (JString [0xD800])"
    by (simp add: fetch_cat_fact_def fetch_cat_fact_try_def raise_for_status_def
        is_success_def dict_get_def)
  have "\<not> json_encodable (JString [0xD800])" by (simp add: utf8_encodable_def)
  with f show ?thesis by (simp add: route_me_status_500)
qed

text \<open>
  C5 (amended): for every 2xx upstream response whose body is a JSON object with a
  string under \<^verbatim>\<open>fact\<close>: when that string and the three user values read from the
  environment encode as UTF-8 (none has a lone surrogate), \<^verbatim>\<open>/me\<close> answers 200 and the
  field \<^verbatim>\<open>fact\<close> of its reply is exactly that string; when one of them does not encode,
  \<^verbatim>\<open>/me\<close> answers 500 with a detail that starts with \<^verbatim>\<open>Internal server error:\<close>.
\<close>

theorem me_returns_encodable_fact:
  assumes "is_success (status_code r)" and "json_of r = Inr (JObject d)"
    and "map_of d (str_of ''fact'') = Some (JString s)"
    and "utf8_encodable s" and "json_encodable (get_user_info env)"
    and "is_success (status_code r')" and "json_of r' = Inr (JObject d')"
    and "map_of d' (str_of ''fact'') = Some (JString s')"
    and "\<not> utf8_encodable s' \<or> \<not> json_encodable (get_user_info env')"
  shows "reply_status (route_me env now (Responds r)) = 200
       \<and> json_field (reply_content (route_me env now (Responds r))) ''fact''
           = Some (JString s)
       \<and> reply_status (route_me env' now' (Responds r')) = 500
       \<and> (\<exists>m. reply_content (route_me env' now' (Responds r')) =
                JObj [(''detail'', JStr (''Internal server error: '' @ m))])"
proof -
  from assms(1-3) have f: "fetch_cat_fact (Responds r) = Inr (JString s)"
    by (simp add: fetch_cat_fact_object dict_get_def)
  from assms(6-8) have f': "fetch_cat_fact (Responds r') = Inr (JString s')"
    by (simp add: fetch_cat_fact_object dict_get_def)
  from assms(9) have bad: "has_nonfinite (JString s') \<or> \<not> json_encodable (JString s')
      \<or> \<not> json_encodable (get_user_info env')"
    by auto
  from route_me_render_failure [OF f' bad, of now']
  obtain m where m: "route_me env' now' (Responds r') =
     JSONResponse (JObj [(''detail'', JStr (''Internal server error: '' @ m))]) 500 []"
    by blast
  have "reply_status (route_me env now (Responds r)) = 200
       \<and> json_field (reply_content (route_me env now (Responds r))) ''fact''
           = Some (JString s)"
    using assms(4,5) by (simp add: route_me_success [OF f])
  moreover have "reply_status (route_me env' now' (Responds r')) = 500"
    by (simp add: m)
  moreover have "\<exists>m. reply_content (route_me env' now' (Responds r')) =
                JObj [(''detail'', JStr (''Internal server error: '' @ m))]"
    using m by auto
  ultimately show ?thesis by blast
qed

theorem me_returns_encodable_fact_witness:
  "is_success 200 \<and> utf8_encodable (str_of ''Cats can rotate their ears 180 degrees.'')
   \<and> json_encodable (get_user_info Map.empty) \<and> \<not> utf8_encodable [0xD800]
   \<and> reply_status (route_me Map.empty example_now
     (Responds \<lparr> status_code = 200, status_message = ''OK'',
        json_of = Inr (JObject [(str_of ''fact'', JStr ''Cats can rotate their ears 180 degrees.''),
                                (str_of ''length'', JInt 39)]) \<rparr>)) = 200
   \<and> json_field (reply_content (route_me Map.empty example_now
     (Responds \<lparr> status_code = 200, status_message = ''OK'',
        json_of = Inr (JObject [(str_of ''fact'', JStr ''Cats can rotate their ears 180 degrees.''),
                                (str_of ''length'', JInt 39)]) \<rparr>))) ''fact''
     = Some (JStr ''Cats can rotate their ears 180 degrees.'')
   \<and> reply_status (route_me Map.empty example_now
     (Responds \<lparr> status_code = 200, status_message = ''OK'',
        json_of = Inr (JObject [(str_of ''fact'', JString [0xD800])]) \<rparr>)) = 500"
proof -
  have b: "\<not> utf8_encodable [0xD800]" by (simp add: utf8_encodable_def)
  from me_returns_encodable_fact
    [of "\<lparr> status_code = 200, status_message = ''OK'',
        json_of = Inr (JObject [(str_of ''fact'', JStr ''Cats can rotate their ears 180 degrees.''),
                                (str_of ''length'', JInt 39)]) \<rparr>"
        "[(str_of ''fact'', JStr ''Cats can rotate their ears 180 degrees.''),
          (str_of ''length'', JInt 39)]"
        "str_of ''Cats can rotate their ears 180 degrees.''" Map.empty
        "\<lparr> status_code = 200, status_message = ''OK'',
        json_of = Inr (JObject [(str_of ''fact'', JString [0xD800])]) \<rparr>"
        "[(str_of ''fact'', JString [0xD800])]" "[0xD800]" Map.empty example_now example_now]
  show ?thesis
    using b by (simp add: is_success_def json_encodable_user_empty JString_str_of)
qed

subsection \<open>C6: the fallback fact\<close>

text \<open>
  C6 as stated fails: a variable of the environment with a byte that is not UTF-8
  reaches \<^verbatim>\<open>get_user_info\<close> as a string with a lone surrogate, the JSONResponse cannot
  be constructed and \<^verbatim>\<open>/me\<close> answers 500, whatever the upstream body.
\<close>

theorem surrogate_environment_counterexample:
  "fetch_cat_fact (Responds \<lparr> status_code = 200, status_message = ''OK'',
         json_of = Inr (JObject [(str_of ''length'', JInt 39)]) \<rparr>)
     = Inr (JStr ''Cats are amazing creatures!'')
   \<and> reply_status (route_me [''USER_NAME'' \<mapsto> [0x4A, 0x6F, 0x73, 0xDCE9]] example_now
      (Responds \<lparr> status_code = 200, status_message = ''OK'',
         json_of = Inr (JObject [(str_of ''length'', JInt 39)]) \<rparr>)) = 500"
proof -
  have f: "fetch_cat_fact (Responds \<lparr> status_code = 200, status_message = ''OK'',
         json_of = Inr (JObject [(str_of ''length'', JInt 39)]) \<rparr>)
     = Inr (JStr ''Cats are amazing creatures!'')"
    by (simp add: fetch_cat_fact_def fetch_cat_fact_try_def raise_for_status_def
        is_success_def dict_get_def fallback_fact_def)
  have "\<not> json_encodable (get_user_info [''USER_NAME'' \<mapsto> [0x4A, 0x6F, 0x73, 0xDCE9]])"
    by (simp add: json_encodable_user getenv_def utf8_encodable_def)
  with f show ?thesis by (simp add: route_me_status_500)
qed

text \<open>
  C6 (amended): for every 2xx upstream response whose body is a JSON object without the
  key \<^verbatim>\<open>fact\<close>: when the three user values read from the environment encode as UTF-8,
  \<^verbatim>\<open>/me\<close> answers 200 with the fact \<^verbatim>\<open>Cats are amazing creatures!\<close>; when one of them
  does not encode, \<^verbatim>\<open>/me\<close> answers 500 with a detail that starts with
  \<^verbatim>\<open>Internal server error:\<close>.
\<close>

theorem me_falls_back_without_fact:
  assumes "is_success (status_code r)" and "json_of r = Inr (JObject d)"
    and "map_of d (str_of ''fact'') = None"
    and "json_encodable (get_user_info env)"
    and "is_success (status_code r')" and "json_of r' = Inr (JObject d')"
    and "map_of d' (str_of ''fact'') = None"
    and "\<not> json_encodable (get_user_info env')"
  shows "reply_status (route_me env now (Responds r)) = 200
       \<and> json_field (reply_content (route_me env now (Responds r))) ''fact''
           = Some (JStr ''Cats are amazing creatures!'')
       \<and> reply_status (route_me env' now' (Responds r')) = 500
       \<and> (\<exists>m. reply_content (route_me env' now' (Responds r')) =
                JObj [(''detail'', JStr (''Internal server error: '' @ m))])"
proof -
  from assms(1-3) have f: "fetch_cat_fact (Responds r) = Inr (JStr ''Cats are amazing creatures!'')"
    by (simp add: fetch_cat_fact_object dict_get_def fallback_fact_def)
  from assms(5-7) have f':
    "fetch_cat_fact (Responds r') = Inr (JStr ''Cats are amazing creatures!'')"
    by (simp add: fetch_cat_fact_object dict_get_def fallback_fact_def)
  from assms(8) have bad: "has_nonfinite (JStr ''Cats are amazing creatures!'')
      \<or> \<not> json_encodable (JStr ''Cats are amazing creatures!'')
      \<or> \<not> json_encodable (get_user_info env')"
    by simp
  from route_me_render_failure [OF f' bad, of now']
  obtain m where m: "route_me env' now' (Responds r') =
     JSONResponse (JObj [(''detail'', JStr (''Internal server error: '' @ m))]) 500 []"
    by blast
  have "reply_status (route_me env now (Responds r)) = 200
       \<and> json_field (reply_content (route_me env now (Responds r))) ''fact''
           = Some (JStr ''Cats are amazing creatures!'')"
    using assms(4) by (simp add: route_me_success [OF f])
  moreover have "reply_status (route_me env' now' (Responds r')) = 500"
    by (simp add: m)
  moreover have "\<exists>m. reply_content (route_me env' now' (Responds r')) =
                JObj [(''detail'', JStr (''Internal server error: '' @ m))]"
    using m by auto
  ultimately show ?thesis by blast
qed

theorem me_falls_back_without_fact_witness:
  "is_success 200 \<and> map_of [(str_of ''length'', JInt 39)] (str_of ''fact'') = None
   \<and> json_encodable (get_user_info Map.empty)
   \<and> \<not> json_encodable (get_user_info [''USER_NAME'' \<mapsto> [0x4A, 0x6F, 0x73, 0xDCE9]])
   \<and> reply_status (route_me Map.empty example_now
     (Responds \<lparr> status_code = 200, status_message = ''OK'',
        json_of = Inr (JObject [(str_of ''length'', JInt 39)]) \<rparr>)) = 200
   \<and> json_field (reply_content (route_me Map.empty example_now
     (Responds \<lparr> status_code = 200, status_message = ''OK'',
        json_of = Inr (JObject [(str_of ''length'', JInt 39)]) \<rparr>))) ''fact''
     = Some (JStr ''Cats are amazing creatures!'')
   \<and> reply_status (route_me [''USER_NAME'' \<mapsto> [0x4A, 0x6F, 0x73, 0xDCE9]] example_now
     (Responds \<lparr> status_code = 200, status_message = ''OK'',
        json_of = Inr (JObject [(str_of ''length'', JInt 39)]) \<rparr>)) = 500"
proof -
  have b: "\<not> json_encodable (get_user_info [''USER_NAME'' \<mapsto> [0x4A, 0x6F, 0x73, 0xDCE9]])"
    by (simp add: json_encodable_user getenv_def utf8_encodable_def)
  from me_falls_back_without_fact
    [of "\<lparr> status_code = 200, status_message = ''OK'',
        json_of = Inr (JObject [(str_of ''length'', JInt 39)]) \<rparr>"
        "[(str_of ''length'', JInt 39)]" Map.empty
        "\<lparr> status_code = 200, status_message = ''OK'',
        json_of = Inr (JObject [(str_of ''length'', JInt 39)]) \<rparr>"
        "[(str_of ''length'', JInt 39)]" "[''USER_NAME'' \<mapsto> [0x4A, 0x6F, 0x73, 0xDCE9]]"
        example_now example_now]
  show ?thesis
    using b by (simp add: is_success_def json_encodable_user_empty)
qed

subsection \<open>C7: where a failure becomes a status code\<close>

text \<open>
  C7 as stated fails: the failure does not reach the route unmodified. The fact client
  catches it and raises an HTTPException that already carries the status code; the
  assembler and \<^verbatim>\<open>get_profile\<close> see that exception, not the timeout.
\<close>

theorem client_translates_counterexample:
  "fetch_cat_fact (Raises (TimeoutException ''timed out''))
     = Inl (HTTPException 503 ''Cat Facts API is taking too long to respond. Please try again.'')
   \<and> build_profile_response Map.empty example_now (Raises (TimeoutException ''timed out''))
     \<noteq> Inl (TimeoutException ''timed out'')
   \<and> get_profile Map.empty example_now (Raises (TimeoutException ''timed out''))
     = Inl (HTTPException 503 ''Cat Facts API is taking too long to respond. Please try again.'')"
  by (simp add: me_defs)

text \<open>
  C7 (amended): every failure inside the fact client is translated there, by the
  \<^verbatim>\<open>except\<close> clauses of \<^verbatim>\<open>fetch_cat_fact\<close>, into an HTTPException with status 503 or 500;
  the assembler lets that exception through unchanged with no default in its place,
  \<^verbatim>\<open>get_profile\<close> raises it again unchanged, and the reply of \<^verbatim>\<open>/me\<close> has its status code
  and detail.
\<close>

theorem failure_translated_in_client:
  assumes "fetch_cat_fact_try up = Inl e"
  shows "fetch_cat_fact up = Inl (fetch_cat_fact_except e)
       \<and> (\<exists>d. fetch_cat_fact_except e = HTTPException 503 d
              \<or> fetch_cat_fact_except e = HTTPException 500 d)
       \<and> build_profile_response env now up = Inl (fetch_cat_fact_except e)
       \<and> get_profile env now up = Inl (fetch_cat_fact_except e)
       \<and> route_me env now up = http_exception_handler (fetch_cat_fact_except e)"
proof -
  from assms have f: "fetch_cat_fact up = Inl (fetch_cat_fact_except e)"
    by (simp add: fetch_cat_fact_def)
  have k: "\<exists>d. fetch_cat_fact_except e = HTTPException 503 d
              \<or> fetch_cat_fact_except e = HTTPException 500 d"
    by (simp add: fetch_cat_fact_except_def)
  then have "is_HTTPException (fetch_cat_fact_except e)" by auto
  with f k show ?thesis
    by (simp add: build_profile_response_def get_profile_def get_profile_try_def route_me_def)
qed

theorem failure_translated_in_client_witness:
  "fetch_cat_fact_try (Raises (RequestError ''Connection refused''))
     = Inl (RequestError ''Connection refused'')
   \<and> fetch_cat_fact (Raises (RequestError ''Connection refused''))
     = Inl (HTTPException 503 ''Failed to connect to Cat Facts API: Connection refused'')
   \<and> get_profile Map.empty example_now (Raises (RequestError ''Connection refused''))
     = Inl (HTTPException 503 ''Failed to connect to Cat Facts API: Connection refused'')
   \<and> route_me Map.empty example_now (Raises (RequestError ''Connection refused''))
     = JSONResponse (JObj [(''detail'',
         JStr ''Failed to connect to Cat Facts API: Connection refused'')]) 503 []"
proof -
  have h: "fetch_cat_fact_try (Raises (RequestError ''Connection refused''))
     = Inl (RequestError ''Connection refused'')"
    by (simp add: fetch_cat_fact_try_def)
  have x: "fetch_cat_fact_except (RequestError ''Connection refused'')
     = HTTPException 503 ''Failed to connect to Cat Facts API: Connection refused''"
    by (simp add: fetch_cat_fact_except_def)
  from failure_translated_in_client [OF h, of Map.empty example_now] h show ?thesis
    by (simp add: x)
qed

subsection \<open>C8: the health route\<close>

text \<open>
  C8: \<^verbatim>\<open>/health\<close> depends on the clock only (the upstream call is not an argument of
  it); for every reading of the clock it answers 200 with the status \<^verbatim>\<open>healthy\<close> and a
  timestamp that reads back, as ISO-8601 in UTC, to that reading.
\<close>

theorem health_always_healthy:
  assumes "valid_datetime now"
  shows "reply_status (route_health now) = 200
       \<and> json_field (reply_content (route_health now)) ''status'' = Some (JStr ''healthy'')
       \<and> (\<exists>t. json_field (reply_content (route_health now)) ''timestamp'' = Some (JStr t)
              \<and> parse_iso8601_utc t = Some now)"
  using assms by (simp add: route_health_reply parse_isoformat)

theorem health_always_healthy_witness:
  "valid_datetime example_now
   \<and> route_health example_now =
       JSONResponse (JObj [(''status'', JStr ''healthy''),
                           (''timestamp'', JStr ''2025-10-18T14:30:45.123456+00:00'')]) 200 []
   \<and> parse_iso8601_utc ''2025-10-18T14:30:45.123456+00:00'' = Some example_now"
proof -
  from health_always_healthy [OF valid_example_now]
  have "parse_iso8601_utc (isoformat example_now) = Some example_now"
    by (simp add: route_health_reply)
  then show ?thesis
    by (simp add: valid_example_now route_health_reply isoformat_example_now)
qed

subsection \<open>C9: timestamps do not decrease\<close>

text \<open>
  C9: when the clock reading of a later call to \<^verbatim>\<open>/me\<close> or \<^verbatim>\<open>/health\<close> is not before the
  reading of an earlier call, the timestamp string of the later reply is greater than or
  equal to that of the earlier one, in the order of strings.
\<close>

theorem timestamps_monotone:
  assumes "valid_datetime t1" and "valid_datetime t2" and "datetime_le t1 t2"
    and "r1 = route_health t1 \<or> r1 = route_me env1 t1 up1"
    and "r2 = route_health t2 \<or> r2 = route_me env2 t2 up2"
    and "reply_timestamp r1 = Some s1" and "reply_timestamp r2 = Some s2"
  shows "s1 \<le> s2"
proof -
  from assms(4,6) have "s1 = str_of (isoformat t1)"
    by (auto simp: reply_timestamp_health dest: reply_timestamp_me)
  moreover from assms(5,7) have "s2 = str_of (isoformat t2)"
    by (auto simp: reply_timestamp_health dest: reply_timestamp_me)
  ultimately show ?thesis
    using assms(1-3) by (simp add: isoformat_mono str_of_mono)
qed

theorem timestamps_monotone_witness:
  "valid_datetime example_earlier \<and> valid_datetime example_now
   \<and> datetime_le example_earlier example_now
   \<and> reply_timestamp (route_health example_earlier)
       = Some (str_of ''2025-10-18T14:30:45+00:00'')
   \<and> reply_timestamp (route_me Map.empty example_now
        (Responds \<lparr> status_code = 200, status_message = ''OK'',
           json_of = Inr (JObject [(str_of ''fact'', JStr ''Cats purr.'')]) \<rparr>))
       = Some (str_of ''2025-10-18T14:30:45.123456+00:00'')
   \<and> str_of ''2025-10-18T14:30:45+00:00'' \<le> str_of ''2025-10-18T14:30:45.123456+00:00''"
proof -
  have le: "datetime_le example_earlier example_now"
    by (simp add: datetime_le_def datetime_key_def)
  have a: "reply_timestamp (route_health example_earlier)
       = Some (str_of ''2025-10-18T14:30:45+00:00'')"
    by (simp add: reply_timestamp_health isoformat_example_earlier)
  have b: "reply_timestamp (route_me Map.empty example_now
        (Responds \<lparr> status_code = 200, status_message = ''OK'',
           json_of = Inr (JObject [(str_of ''fact'', JStr ''Cats purr.'')]) \<rparr>))
       = Some (str_of ''2025-10-18T14:30:45.123456+00:00'')"
  proof -
    have f: "fetch_cat_fact (Responds \<lparr> status_code = 200, status_message = ''OK'',
           json_of = Inr (JObject [(str_of ''fact'', JStr ''Cats purr.'')]) \<rparr>)
        = Inr (JStr ''Cats purr.'')"
      by (simp add: fetch_cat_fact_def fetch_cat_fact_try_def raise_for_status_def
          is_success_def dict_get_def)
    show ?thesis
      by (simp add: route_me_success [OF f] json_encodable_user_empty reply_timestamp_def
          get_current_timestamp_def isoformat_example_now)
        (simp add: JStr_def)
  qed
  from timestamps_monotone [OF valid_example_earlier valid_example_now le _ _ a b]
  have "str_of ''2025-10-18T14:30:45+00:00'' \<le> str_of ''2025-10-18T14:30:45.123456+00:00''"
    by blast
  with le a b show ?thesis
    by (simp add: valid_example_earlier valid_example_now)
qed

subsection \<open>C10: a fact that is not a string\<close>

text \<open>
  C10 as stated fails: a number too large for a float decodes to \<^verbatim>\<open>inf\<close>;
  \<^verbatim>\<open>fetch_cat_fact\<close> returns it, the JSONResponse refuses it and \<^verbatim>\<open>/me\<close> answers 500.
\<close>

theorem infinite_fact_counterexample:
  "fetch_cat_fact (Responds \<lparr> status_code = 200, status_message = ''OK'',
         json_of = Inr (JObject [(str_of ''fact'', JFloat FloatInf)]) \<rparr>)
     = Inr (JFloat FloatInf)
   \<and> reply_status (route_me Map.empty example_now
      (Responds \<lparr> status_code = 200, status_message = ''OK'',
         json_of = Inr (JObject [(str_of ''fact'', JFloat FloatInf)]) \<rparr>)) = 500"
proof -
  have f: "fetch_cat_fact (Responds \<lparr> status_code = 200, status_message = ''OK'',
         json_of = Inr (JObject [(str_of ''fact'', JFloat FloatInf)]) \<rparr>)
     = Inr (JFloat FloatInf)"
    by (simp add: fetch_cat_fact_def fetch_cat_fact_try_def raise_for_status_def
        is_success_def dict_get_def)
  have "has_nonfinite (JFloat FloatInf)" by simp
  with f show ?thesis by (simp add: route_me_status_500)
qed

text \<open>
  C10 (amended): for every 2xx upstream response whose body is a JSON object with a value
  under \<^verbatim>\<open>fact\<close> that is not a string, \<^verbatim>\<open>fetch_cat_fact\<close> returns that value unchanged,
  not the fallback. When the value holds no float that is not finite and no lone
  surrogate in its strings and keys, and the three user values of the environment encode
  as UTF-8, \<^verbatim>\<open>/me\<close> answers 200 with that value as its fact; otherwise \<^verbatim>\<open>/me\<close> answers
  500 with a detail that starts with \<^verbatim>\<open>Internal server error:\<close>.
\<close>

theorem non_string_fact_passes_through:
  assumes "is_success (status_code r)" and "json_of r = Inr (JObject d)"
    and "map_of d (str_of ''fact'') = Some v" and "\<not> is_JString v"
    and "\<not> has_nonfinite v" and "json_encodable v" and "json_encodable (get_user_info env)"
    and "is_success (status_code r')" and "json_of r' = Inr (JObject d')"
    and "map_of d' (str_of ''fact'') = Some v'" and "\<not> is_JString v'"
    and "has_nonfinite v' \<or> \<not> json_encodable v' \<or> \<not> json_encodable (get_user_info env')"
  shows "fetch_cat_fact (Responds r) = Inr v
       \<and> v \<noteq> JStr ''Cats are amazing creatures!''
       \<and> reply_status (route_me env now (Responds r)) = 200
       \<and> json_field (reply_content (route_me env now (Responds r))) ''fact'' = Some v
       \<and> fetch_cat_fact (Responds r') = Inr v'
       \<and> v' \<noteq> JStr ''Cats are amazing creatures!''
       \<and> reply_status (route_me env' now' (Responds r')) = 500
       \<and> (\<exists>m. reply_content (route_me env' now' (Responds r')) =
                JObj [(''detail'', JStr (''Internal server error: '' @ m))])"
proof -
  from assms(1-3) have f: "fetch_cat_fact (Responds r) = Inr v"
    by (simp add: fetch_cat_fact_object dict_get_def)
  from assms(8-10) have f': "fetch_cat_fact (Responds r') = Inr v'"
    by (simp add: fetch_cat_fact_object dict_get_def)
  from assms(4) have n: "v \<noteq> JStr ''Cats are amazing creatures!''"
    by (auto simp: JStr_def)
  from assms(11) have n': "v' \<noteq> JStr ''Cats are amazing creatures!''"
    by (auto simp: JStr_def)
  from route_me_render_failure [OF f' assms(12), of now']
  obtain m where m: "route_me env' now' (Responds r') =
     JSONResponse (JObj [(''detail'', JStr (''Internal server error: '' @ m))]) 500 []"
    by blast
  have "reply_status (route_me env now (Responds r)) = 200
       \<and> json_field (reply_content (route_me env now (Responds r))) ''fact'' = Some v"
    using assms(5-7) by (simp add: route_me_success [OF f])
  moreover have "reply_status (route_me env' now' (Responds r')) = 500"
    by (simp add: m)
  moreover have "\<exists>m. reply_content (route_me env' now' (Responds r')) =
                JObj [(''detail'', JStr (''Internal server error: '' @ m))]"
    using m by auto
  ultimately show ?thesis using f f' n n' by blast
qed

theorem non_string_fact_passes_through_witness:
  "is_success 200 \<and> \<not> is_JString JNull \<and> \<not> has_nonfinite JNull \<and> json_encodable JNull
   \<and> json_encodable (get_user_info Map.empty)
   \<and> \<not> is_JString (JFloat FloatInf) \<and> has_nonfinite (JFloat FloatInf)
   \<and> fetch_cat_fact (Responds \<lparr> status_code = 200, status_message = ''OK'',
        json_of = Inr (JObject [(str_of ''fact'', JNull)]) \<rparr>) = Inr JNull
   \<and> reply_status (route_me Map.empty example_now
     (Responds \<lparr> status_code = 200, status_message = ''OK'',
        json_of = Inr (JObject [(str_of ''fact'', JNull)]) \<rparr>)) = 200
   \<and> json_field (reply_content (route_me Map.empty example_now
     (Responds \<lparr> status_code = 200, status_message = ''OK'',
        json_of = Inr (JObject [(str_of ''fact'', JNull)]) \<rparr>))) ''fact'' = Some JNull
   \<and> fetch_cat_fact (Responds \<lparr> status_code = 200, status_message = ''OK'',
        json_of = Inr (JObject [(str_of ''fact'', JFloat FloatInf)]) \<rparr>) = Inr (JFloat FloatInf)
   \<and> reply_status (route_me Map.empty example_now
     (Responds \<lparr> status_code = 200, status_message = ''OK'',
        json_of = Inr (JObject [(str_of ''fact'', JFloat FloatInf)]) \<rparr>)) = 500"
  using non_string_fact_passes_through
    [of "\<lparr> status_code = 200, status_message = ''OK'',
        json_of = Inr (JObject [(str_of ''fact'', JNull)]) \<rparr>"
        "[(str_of ''fact'', JNull)]" JNull Map.empty
        "\<lparr> status_code = 200, status_message = ''OK'',
        json_of = Inr (JObject [(str_of ''fact'', JFloat FloatInf)]) \<rparr>"
        "[(str_of ''fact'', JFloat FloatInf)]" "JFloat FloatInf" Map.empty
        example_now example_now]
  by (simp add: is_success_def json_encodable_user_empty)

end
